theory Spec2Isabelle
  imports Complex_Main "HOL-Library.Multiset" "HOL-Library.Char_ord" "HOL-Library.List_Lexorder"
begin

unbundle bit_operations_syntax

section \<open>JavaScript values\<close>

text \<open>
  The notifier exists twice in the repository: \<^verbatim>\<open>src/index.js\<close> (the first version) and
  \<^verbatim>\<open>src/main.js\<close> (v3.1). Functions that are textually the same in both files are embedded
  once; the two \<^verbatim>\<open>processBatch\<close> functions are embedded separately.

  Scalar payload values are JSON scalars or absent. Numbers are exact rationals: the value a
  double prints as. Rounding error of binary floating point and overflow to \<^verbatim>\<open>Infinity\<close> are
  outside the model. Strings are byte strings (the UTF-8 form of the JavaScript string).
\<close>

datatype jsval = JUndefined | JNull | JBool bool | JNum rat | JStr string

text \<open>\<^verbatim>\<open>v == null\<close>\<close>
definition nullish :: "jsval \<Rightarrow> bool" where
  "nullish v = (v = JUndefined \<or> v = JNull)"

text \<open>\<^verbatim>\<open>Boolean(v)\<close>\<close>
fun truthy :: "jsval \<Rightarrow> bool" where
  "truthy JUndefined = False"
| "truthy JNull = False"
| "truthy (JBool b) = b"
| "truthy (JNum r) = (r \<noteq> 0)"
| "truthy (JStr s) = (s \<noteq> [])"

text \<open>\<^verbatim>\<open>a ?? b\<close>\<close>
definition coalesce :: "jsval \<Rightarrow> jsval \<Rightarrow> jsval" where
  "coalesce a b = (if nullish a then b else a)"

text \<open>
  \<^verbatim>\<open>a || b\<close> on fields that hold a string or are absent (unit names, identifiers, names,
  timestamps), and on fields that hold an integer or are absent (product ids).
\<close>
definition or_str :: "string option \<Rightarrow> string option \<Rightarrow> string option" where
  "or_str a b = (case a of Some s \<Rightarrow> (if s = [] then b else a) | None \<Rightarrow> b)"

definition or_int :: "int option \<Rightarrow> int option \<Rightarrow> int option" where
  "or_int a b = (case a of Some n \<Rightarrow> (if n = 0 then b else a) | None \<Rightarrow> b)"

text \<open>\<^verbatim>\<open>s || ''\<close>\<close>
definition str_or_empty :: "string option \<Rightarrow> string" where
  "str_or_empty a = (case a of Some s \<Rightarrow> s | None \<Rightarrow> [])"

text \<open>\<^verbatim>\<open>n || 0\<close>\<close>
definition int_or_zero :: "int option \<Rightarrow> int" where
  "int_or_zero a = (case a of Some n \<Rightarrow> n | None \<Rightarrow> 0)"

subsection \<open>Strings\<close>

text \<open>\<^verbatim>\<open>String.prototype.toLowerCase\<close>, on the ASCII letters.\<close>
definition lower_char :: "char \<Rightarrow> char" where
  "lower_char c = (let n = (of_char c :: nat) in if 65 \<le> n \<and> n \<le> 90 then char_of (n + 32) else c)"

definition toLowerCase :: "string \<Rightarrow> string" where
  "toLowerCase s = map lower_char s"

text \<open>\<^verbatim>\<open>s.includes(p)\<close>\<close>
fun str_includes :: "string \<Rightarrow> string \<Rightarrow> bool" where
  "str_includes [] p = (p = [])"
| "str_includes (c # cs) p = (take (length p) (c # cs) = p \<or> str_includes cs p)"

subsection \<open>Numbers and strings\<close>

definition is_ws :: "char \<Rightarrow> bool" where
  "is_ws c = ((of_char c :: nat) \<in> {9, 10, 11, 12, 13, 32})"

definition trim :: "string \<Rightarrow> string" where
  "trim s = rev (dropWhile is_ws (rev (dropWhile is_ws s)))"

definition digit_val :: "char \<Rightarrow> nat option" where
  "digit_val c = (let n = (of_char c :: nat) in
     if 48 \<le> n \<and> n \<le> 57 then Some (n - 48)
     else if 97 \<le> n \<and> n \<le> 102 then Some (n - 87)
     else if 65 \<le> n \<and> n \<le> 70 then Some (n - 55)
     else None)"

definition is_digit :: "nat \<Rightarrow> char \<Rightarrow> bool" where
  "is_digit radix c = (case digit_val c of Some d \<Rightarrow> d < radix | None \<Rightarrow> False)"

definition digits_val :: "nat \<Rightarrow> string \<Rightarrow> nat" where
  "digits_val radix s = foldl (\<lambda>a c. radix * a + (case digit_val c of Some d \<Rightarrow> d | None \<Rightarrow> 0)) 0 s"

definition pow10 :: "int \<Rightarrow> rat" where
  "pow10 e = (if 0 \<le> e then 10 ^ nat e else 1 / 10 ^ nat (- e))"

text \<open>The exponent part of a decimal literal: \<^verbatim>\<open>e\<close> or \<^verbatim>\<open>E\<close>, an optional sign, digits.\<close>
definition parse_exponent :: "string \<Rightarrow> int option" where
  "parse_exponent s =
     (case s of
        [] \<Rightarrow> Some 0
      | c # r \<Rightarrow>
          if c \<noteq> CHR ''e'' \<and> c \<noteq> CHR ''E'' then None
          else let neg = (r \<noteq> [] \<and> hd r = CHR ''-'');
                   ds = (if r \<noteq> [] \<and> (hd r = CHR ''-'' \<or> hd r = CHR ''+'') then tl r else r)
               in if ds = [] \<or> \<not> list_all (is_digit 10) ds then None
                  else Some (if neg then - int (digits_val 10 ds) else int (digits_val 10 ds)))"

text \<open>An unsigned decimal literal: \<^verbatim>\<open>12\<close>, \<^verbatim>\<open>12.\<close>, \<^verbatim>\<open>12.5\<close>, \<^verbatim>\<open>.5\<close>, each with an optional exponent.\<close>
definition parse_unsigned :: "string \<Rightarrow> rat option" where
  "parse_unsigned s =
     (let ip = takeWhile (is_digit 10) s;
          r1 = dropWhile (is_digit 10) s;
          dot = (r1 \<noteq> [] \<and> hd r1 = CHR ''.'');
          fp = (if dot then takeWhile (is_digit 10) (tl r1) else []);
          r2 = (if dot then dropWhile (is_digit 10) (tl r1) else r1)
      in if ip = [] \<and> fp = [] then None
         else case parse_exponent r2 of
                None \<Rightarrow> None
              | Some e \<Rightarrow>
                  Some ((of_nat (digits_val 10 ip) + of_nat (digits_val 10 fp) / 10 ^ length fp) * pow10 e))"

definition parse_radix :: "nat \<Rightarrow> string \<Rightarrow> rat option" where
  "parse_radix radix ds =
     (if ds = [] \<or> \<not> list_all (is_digit radix) ds then None else Some (of_nat (digits_val radix ds)))"

text \<open>
  \<^verbatim>\<open>Number(s)\<close> on a string. \<open>None\<close> stands for the results that \<^verbatim>\<open>isFinite\<close> rejects
  (\<^verbatim>\<open>NaN\<close>, \<^verbatim>\<open>Infinity\<close>, \<^verbatim>\<open>-Infinity\<close>).
\<close>
definition stringToNumber :: "string \<Rightarrow> rat option" where
  "stringToNumber s0 =
     (let s = trim s0 in
      if s = [] then Some 0
      else if 2 \<le> length s \<and> hd s = CHR ''0'' \<and> toLowerCase [s ! 1] = ''x'' then parse_radix 16 (drop 2 s)
      else if 2 \<le> length s \<and> hd s = CHR ''0'' \<and> toLowerCase [s ! 1] = ''o'' then parse_radix 8 (drop 2 s)
      else if 2 \<le> length s \<and> hd s = CHR ''0'' \<and> toLowerCase [s ! 1] = ''b'' then parse_radix 2 (drop 2 s)
      else if hd s = CHR ''-'' then map_option uminus (parse_unsigned (tl s))
      else if hd s = CHR ''+'' then parse_unsigned (tl s)
      else parse_unsigned s)"

text \<open>\<^verbatim>\<open>Number(v)\<close> followed by the \<^verbatim>\<open>isFinite\<close> test.\<close>
fun toNumber :: "jsval \<Rightarrow> rat option" where
  "toNumber JUndefined = None"
| "toNumber JNull = Some 0"
| "toNumber (JBool b) = Some (if b then 1 else 0)"
| "toNumber (JNum r) = Some r"
| "toNumber (JStr s) = stringToNumber s"

text \<open>
  \<^verbatim>\<open>+x.toFixed(f)\<close>: the nearest multiple of \<open>10\<^sup>-\<^sup>f\<close>, a tie going away from zero.
\<close>
definition toFixed :: "nat \<Rightarrow> rat \<Rightarrow> rat" where
  "toFixed f x =
     (if x < 0 then - (of_int \<lfloor>(- x) * 10 ^ f + 1 / 2\<rfloor> / 10 ^ f)
      else of_int \<lfloor>x * 10 ^ f + 1 / 2\<rfloor> / 10 ^ f)"


section \<open>Unit normalisation\<close>

definition mm :: "jsval \<Rightarrow> string option \<Rightarrow> rat option" where
  "mm val unit =
     (if nullish val then None
      else case toNumber val of
             None \<Rightarrow> None
           | Some x \<Rightarrow>
               let u = toLowerCase (str_or_empty unit) in
               if u = ''mm'' \<or> u = [] then Some (toFixed 2 x)
               else if u = ''cm'' then Some (toFixed 2 (x * 10))
               else if u = ''m'' then Some (toFixed 2 (x * 1000))
               else Some x)"

definition grams :: "jsval \<Rightarrow> string option \<Rightarrow> rat option" where
  "grams val unit =
     (if nullish val then None
      else case toNumber val of
             None \<Rightarrow> None
           | Some x \<Rightarrow>
               let u = toLowerCase (str_or_empty unit) in
               if u = ''g'' \<or> u = [] then Some (toFixed 1 x)
               else if u = ''kg'' then Some (toFixed 1 (x * 1000))
               else Some x)"

section \<open>Dimension extraction\<close>

text \<open>
  The fields that the extractors read from an object. A unit field holds a string or is
  absent; a value field holds any scalar.
\<close>
record dim_obj =
  depth :: jsval
  length_fld :: jsval
  long :: jsval
  width :: jsval
  height :: jsval
  weight :: jsval
  dimension_unit :: "string option"
  length_unit :: "string option"
  width_unit :: "string option"
  height_unit :: "string option"
  unit_fld :: "string option"
  weight_unit :: "string option"

text \<open>The object literal \<^verbatim>\<open>{}\<close>.\<close>
definition empty_obj :: dim_obj where
  "empty_obj = \<lparr> depth = JUndefined, length_fld = JUndefined, long = JUndefined, width = JUndefined,
     height = JUndefined, weight = JUndefined, dimension_unit = None, length_unit = None,
     width_unit = None, height_unit = None, unit_fld = None, weight_unit = None \<rparr>"

record dims =
  depth_mm :: "rat option"
  width_mm :: "rat option"
  height_mm :: "rat option"
  weight_g :: "rat option"

text \<open>An item of an endpoint's result: the dimension fields at its root and its offer id.\<close>
record api_item = dim_obj +
  offer_id :: "string option"

text \<open>An item of the bulk-info endpoints.\<close>
record info_item = api_item +
  offerId :: "string option"
  offer :: "string option"
  id_fld :: "int option"
  product_id :: "int option"
  name :: "string option"
  updated_at :: "string option"
  updatedAt :: "string option"
  dimensions :: "dim_obj option"
  dimension :: "dim_obj option"
  package_dimensions :: "dim_obj option"

text \<open>The local function \<^verbatim>\<open>maybe\<close> of \<^verbatim>\<open>extractDims\<close> and \<^verbatim>\<open>extractDimsFromInfo\<close>.\<close>
definition maybe :: "'a dim_obj_scheme \<Rightarrow> dims" where
  "maybe obj =
     \<lparr> depth_mm = mm (coalesce (coalesce (depth obj) (length_fld obj)) (long obj))
                     (or_str (or_str (dimension_unit obj) (length_unit obj)) (unit_fld obj)),
       width_mm = mm (width obj) (or_str (or_str (dimension_unit obj) (width_unit obj)) (unit_fld obj)),
       height_mm = mm (height obj) (or_str (or_str (dimension_unit obj) (height_unit obj)) (unit_fld obj)),
       weight_g = grams (weight obj) (weight_unit obj) \<rparr>"

text \<open>The object \<^verbatim>\<open>direct\<close>: six fields of the item, nothing else.\<close>
definition direct :: "'a info_item_scheme \<Rightarrow> dim_obj" where
  "direct it = empty_obj \<lparr> depth := depth it, width := width it, height := height it,
     dimension_unit := dimension_unit it, weight := weight it, weight_unit := weight_unit it \<rparr>"

text \<open>\<^verbatim>\<open>it.dimensions || it.dimension || it.package_dimensions || {}\<close>: an object is truthy.\<close>
definition nested :: "'a info_item_scheme \<Rightarrow> dim_obj" where
  "nested it =
     (case dimensions it of
        Some d \<Rightarrow> d
      | None \<Rightarrow> (case dimension it of
                   Some d \<Rightarrow> d
                 | None \<Rightarrow> (case package_dimensions it of Some d \<Rightarrow> d | None \<Rightarrow> empty_obj)))"

text \<open>\<^verbatim>\<open>[c.depth_mm, c.width_mm, c.height_mm, c.weight_g].filter((v) => v != null)\<close>\<close>
definition non_null :: "dims \<Rightarrow> rat option list" where
  "non_null c = filter (\<lambda>v. v \<noteq> None) [depth_mm c, width_mm c, height_mm c, weight_g c]"

text \<open>\<^verbatim>\<open>extractDims\<close> of \<^verbatim>\<open>index.js\<close>.\<close>
definition extractDims :: "'a info_item_scheme \<Rightarrow> dims" where
  "extractDims it =
     (let c1 = maybe (direct it); c2 = maybe (nested it); vals1 = non_null c1
      in if length vals1 \<noteq> 0 then c1 else c2)"

text \<open>\<^verbatim>\<open>extractDimsFromInfo\<close> of \<^verbatim>\<open>main.js\<close>.\<close>
definition extractDimsFromInfo :: "'a info_item_scheme \<Rightarrow> dims" where
  "extractDimsFromInfo it =
     (let c1 = maybe (direct it); c2 = maybe (nested it); vals1 = non_null c1
      in if length vals1 \<noteq> 0 then c1 else c2)"

text \<open>\<^verbatim>\<open>extractDimsFromAttrsRoot\<close> of \<^verbatim>\<open>main.js\<close>.\<close>
definition extractDimsFromAttrsRoot :: "'a dim_obj_scheme \<Rightarrow> dims" where
  "extractDimsFromAttrsRoot item =
     (let dimension_unit' = or_str (or_str (or_str (dimension_unit item) (length_unit item)) (unit_fld item)) (Some ''mm'');
          weight_unit' = or_str (weight_unit item) (Some ''g'')
      in \<lparr> depth_mm = mm (coalesce (coalesce (depth item) (length_fld item)) (long item)) dimension_unit',
           width_mm = mm (width item) dimension_unit',
           height_mm = mm (height item) dimension_unit',
           weight_g = grams (weight item) weight_unit' \<rparr>)"

text \<open>
  The dimensions step of \<^verbatim>\<open>processBatch\<close> in \<^verbatim>\<open>main.js\<close>: the root fields of the
  attributes record first, the bulk-info record when all four are null. The test
  \<^verbatim>\<open>info && Object.keys(info).length\<close> holds for every \<^verbatim>\<open>info\<close> of the loop, which is a
  fetched record or the stub \<^verbatim>\<open>{ offer_id }\<close>.
\<close>
definition batchDims :: "'a info_item_scheme \<Rightarrow> 'b dim_obj_scheme \<Rightarrow> dims" where
  "batchDims info attrs =
     (let dims = extractDimsFromAttrsRoot attrs;
          hasAny = list_ex (\<lambda>v. v \<noteq> None) [depth_mm dims, width_mm dims, height_mm dims, weight_g dims]
      in if \<not> hasAny then extractDimsFromInfo info else dims)"

section \<open>Serialisation\<close>

function show_nat :: "nat \<Rightarrow> string" where
  "show_nat n = (if n < 10 then [char_of (48 + n)] else show_nat (n div 10) @ [char_of (48 + n mod 10)])"
  by pat_completeness auto
termination
  by (relation "measure (\<lambda>n. n)") auto

declare show_nat.simps [simp del]

text \<open>The number of decimal places of a number, searched up to a bound.\<close>
fun frac_places :: "nat \<Rightarrow> rat \<Rightarrow> nat" where
  "frac_places 0 q = 0"
| "frac_places (Suc fuel) q = (if of_int \<lfloor>q\<rfloor> = q then 0 else Suc (frac_places fuel (q * 10)))"

text \<open>
  \<^verbatim>\<open>Number.prototype.toString\<close> on a positive number: the digits without trailing zeros,
  and the position \<open>n\<close> of the decimal point, select one of the four layouts.
\<close>
definition show_pos :: "rat \<Rightarrow> string" where
  "show_pos q =
     (let k = frac_places 1100 q;
          ds0 = show_nat (nat \<lfloor>q * 10 ^ k\<rfloor>);
          z = length (takeWhile (\<lambda>c. c = CHR ''0'') (rev ds0));
          ds = take (length ds0 - z) ds0;
          n = int (length ds0) - int k;
          e = n - 1
      in if int (length ds) \<le> n \<and> n \<le> 21 then ds @ replicate (nat (n - int (length ds))) (CHR ''0'')
         else if 0 < n \<and> n \<le> 21 then take (nat n) ds @ ''.'' @ drop (nat n) ds
         else if - 6 < n \<and> n \<le> 0 then ''0.'' @ replicate (nat (- n)) (CHR ''0'') @ ds
         else (if length ds = 1 then ds else [hd ds] @ ''.'' @ tl ds)
              @ ''e'' @ (if 0 \<le> e then ''+'' else ''-'') @ show_nat (nat \<bar>e\<bar>))"

definition numberToString :: "rat \<Rightarrow> string" where
  "numberToString q = (if q = 0 then ''0'' else if q < 0 then ''-'' @ show_pos (- q) else show_pos q)"

text \<open>\<^verbatim>\<open>String(v)\<close>\<close>
fun toString :: "jsval \<Rightarrow> string" where
  "toString JUndefined = ''undefined''"
| "toString JNull = ''null''"
| "toString (JBool b) = (if b then ''true'' else ''false'')"
| "toString (JNum r) = numberToString r"
| "toString (JStr s) = s"

definition hexdigit :: "nat \<Rightarrow> char" where
  "hexdigit n = (if n < 10 then char_of (48 + n) else char_of (87 + n))"

text \<open>The escapes of \<^verbatim>\<open>JSON.stringify\<close> inside a string.\<close>
definition json_escape :: "char \<Rightarrow> string" where
  "json_escape c =
     (let n = (of_char c :: nat) in
      if n = 34 then [CHR 0x5C, CHR 0x22]
      else if n = 92 then [CHR 0x5C, CHR 0x5C]
      else if n = 8 then [CHR 0x5C, CHR ''b'']
      else if n = 9 then [CHR 0x5C, CHR ''t'']
      else if n = 10 then [CHR 0x5C, CHR ''n'']
      else if n = 12 then [CHR 0x5C, CHR ''f'']
      else if n = 13 then [CHR 0x5C, CHR ''r'']
      else if n < 32 then [CHR 0x5C, CHR ''u'', CHR ''0'', CHR ''0'', hexdigit (n div 16), hexdigit (n mod 16)]
      else [c])"

definition json_string :: "string \<Rightarrow> string" where
  "json_string s = [CHR 0x22] @ concat (map json_escape s) @ [CHR 0x22]"

text \<open>\<^verbatim>\<open>JSON.stringify\<close> of a scalar inside an array: \<^verbatim>\<open>undefined\<close> becomes \<^verbatim>\<open>null\<close>.\<close>
fun json_scalar :: "jsval \<Rightarrow> string" where
  "json_scalar JUndefined = ''null''"
| "json_scalar JNull = ''null''"
| "json_scalar (JBool b) = (if b then ''true'' else ''false'')"
| "json_scalar (JNum r) = numberToString r"
| "json_scalar (JStr s) = json_string s"

fun join :: "string \<Rightarrow> string list \<Rightarrow> string" where
  "join sep [] = []"
| "join sep [x] = x"
| "join sep (x # y # ys) = x @ sep @ join sep (y # ys)"

definition json_array :: "string list \<Rightarrow> string" where
  "json_array xs = ''['' @ join '','' xs @ '']''"

text \<open>
  An object: the members whose value is not \<^verbatim>\<open>undefined\<close>, in order. A member is a key and
  its serialised value, \<open>None\<close> when the value is \<^verbatim>\<open>undefined\<close>.
\<close>
definition json_object :: "(string \<times> string option) list \<Rightarrow> string" where
  "json_object ms =
     ''{'' @ join '','' (List.map_filter (\<lambda>(k, v). map_option (\<lambda>t. json_string k @ '':'' @ t) v) ms) @ ''}''"

section \<open>SHA-256\<close>

text \<open>
  \<^verbatim>\<open>crypto.createHash('sha256').update(str).digest('hex')\<close>, after FIPS 180-4. A 32-bit word is
  an integer below \<open>2\<^sup>3\<^sup>2\<close>, the reduction written out.
\<close>

definition m32 :: "int \<Rightarrow> int" where
  "m32 x = x mod 4294967296"

definition rotr :: "nat \<Rightarrow> int \<Rightarrow> int" where
  "rotr n w = w div 2 ^ n + (w mod 2 ^ n) * 2 ^ (32 - n)"

definition Ch :: "int \<Rightarrow> int \<Rightarrow> int \<Rightarrow> int" where
  "Ch x y z = (x AND y) XOR ((4294967295 - x) AND z)"

definition Maj :: "int \<Rightarrow> int \<Rightarrow> int \<Rightarrow> int" where
  "Maj x y z = (x AND y) XOR (x AND z) XOR (y AND z)"

definition bsig0 :: "int \<Rightarrow> int" where
  "bsig0 x = rotr 2 x XOR rotr 13 x XOR rotr 22 x"

definition bsig1 :: "int \<Rightarrow> int" where
  "bsig1 x = rotr 6 x XOR rotr 11 x XOR rotr 25 x"

definition ssig0 :: "int \<Rightarrow> int" where
  "ssig0 x = rotr 7 x XOR rotr 18 x XOR (x div 2 ^ 3)"

definition ssig1 :: "int \<Rightarrow> int" where
  "ssig1 x = rotr 17 x XOR rotr 19 x XOR (x div 2 ^ 10)"

definition K256 :: "int list" where
  "K256 =
    [1116352408, 1899447441, 3049323471, 3921009573, 961987163, 1508970993, 2453635748, 2870763221,
     3624381080, 310598401, 607225278, 1426881987, 1925078388, 2162078206, 2614888103, 3248222580,
     3835390401, 4022224774, 264347078, 604807628, 770255983, 1249150122, 1555081692, 1996064986,
     2554220882, 2821834349, 2952996808, 3210313671, 3336571891, 3584528711, 113926993, 338241895,
     666307205, 773529912, 1294757372, 1396182291, 1695183700, 1986661051, 2177026350, 2456956037,
     2730485921, 2820302411, 3259730800, 3345764771, 3516065817, 3600352804, 4094571909, 275423344,
     430227734, 506948616, 659060556, 883997877, 958139571, 1322822218, 1537002063, 1747873779,
     1955562222, 2024104815, 2227730452, 2361852424, 2428436474, 2756734187, 3204031479, 3329325298]"

type_synonym hstate = "int \<times> int \<times> int \<times> int \<times> int \<times> int \<times> int \<times> int"

definition H0 :: hstate where
  "H0 = (1779033703, 3144134277, 1013904242, 2773480762, 1359893119, 2600822924, 528734635, 1541459225)"

fun round256 :: "hstate \<Rightarrow> int \<times> int \<Rightarrow> hstate" where
  "round256 (a, b, c, d, e, f, g, h) (k, w) =
     (let t1 = m32 (h + bsig1 e + Ch e f g + k + w);
          t2 = m32 (bsig0 a + Maj a b c)
      in (m32 (t1 + t2), a, b, c, m32 (d + t1), e, f, g))"

fun add8 :: "hstate \<Rightarrow> hstate \<Rightarrow> hstate" where
  "add8 (a, b, c, d, e, f, g, h) (a', b', c', d', e', f', g', h') =
     (m32 (a + a'), m32 (b + b'), m32 (c + c'), m32 (d + d'),
      m32 (e + e'), m32 (f + f'), m32 (g + g'), m32 (h + h'))"

text \<open>
  One round. The window holds sixteen words of the message schedule, the word of this round
  first; the round appends the word sixteen places on.
\<close>
fun round_w :: "hstate \<times> int list \<Rightarrow> int \<Rightarrow> hstate \<times> int list" where
  "round_w (hs, win) k =
     (round256 hs (k, win ! 0),
      tl win @ [m32 (ssig1 (win ! 14) + (win ! 9) + ssig0 (win ! 1) + (win ! 0))])"

definition compress :: "hstate \<Rightarrow> int list \<Rightarrow> hstate" where
  "compress hs blk = add8 hs (fst (foldl round_w (hs, blk) K256))"

text \<open>Big-endian words of a byte list whose length is a multiple of four.\<close>
fun be_words :: "int list \<Rightarrow> int list" where
  "be_words (b0 # b1 # b2 # b3 # bs) = (((b0 * 256 + b1) * 256 + b2) * 256 + b3) # be_words bs"
| "be_words _ = []"

fun blocks :: "nat \<Rightarrow> int list \<Rightarrow> int list list" where
  "blocks 0 ws = []"
| "blocks (Suc fuel) ws = (if ws = [] then [] else take 16 ws # blocks fuel (drop 16 ws))"

definition pad :: "int list \<Rightarrow> int list" where
  "pad bs =
     (let l = length bs; z = (119 - l mod 64) mod 64
      in bs @ [128] @ replicate z 0 @ map (\<lambda>i. (int (8 * l) div 256 ^ (7 - i)) mod 256) [0..<8])"

definition hex32 :: "int \<Rightarrow> string" where
  "hex32 w = map (\<lambda>i. hexdigit (nat ((w div 16 ^ (7 - i)) mod 16))) [0..<8]"

fun hex_state :: "hstate \<Rightarrow> string" where
  "hex_state (a, b, c, d, e, f, g, h) = concat (map hex32 [a, b, c, d, e, f, g, h])"

definition sha256_hex :: "string \<Rightarrow> string" where
  "sha256_hex s =
     (let ws = be_words (pad (map (\<lambda>c. int (of_char c)) s))
      in hex_state (foldl compress H0 (blocks (length ws) ws)))"

section \<open>Fingerprints\<close>

definition json_number_or_null :: "rat option \<Rightarrow> string" where
  "json_number_or_null v = (case v of None \<Rightarrow> ''null'' | Some r \<Rightarrow> numberToString r)"

definition sizeFingerprint :: "'a dims_scheme \<Rightarrow> string" where
  "sizeFingerprint s =
     (let str = json_object
        [(''d'', Some (json_number_or_null (depth_mm s))),
         (''w'', Some (json_number_or_null (width_mm s))),
         (''h'', Some (json_number_or_null (height_mm s))),
         (''wg'', Some (json_number_or_null (weight_g s)))]
      in sha256_hex str)"

section \<open>Attribute selection\<close>

text \<open>
  An entry of an attribute's \<^verbatim>\<open>values\<close>, an attribute, and an item of the attributes
  endpoint. An entry that is \<^verbatim>\<open>null\<close> reads as an entry without fields; an absent
  \<^verbatim>\<open>values\<close> or \<^verbatim>\<open>attributes\<close> reads as the empty list.
\<close>
record value_entry =
  value_fld :: jsval
  text_fld :: jsval
  dictionary_value_id :: jsval

record attribute =
  attr_name :: "string option"
  attribute_id :: jsval
  attr_values :: "value_entry list"

record attrs_item = api_item +
  attributes :: "attribute list"

text \<open>An element of the result of \<^verbatim>\<open>pickSizeAttributes\<close>: \<^verbatim>\<open>{ name, attribute_id, values }\<close>.\<close>
record picked =
  picked_name :: "string option"
  picked_attribute_id :: jsval
  picked_values :: "jsval list"

text \<open>\<^verbatim>\<open>v?.value ?? v?.text ?? v?.dictionary_value_id\<close>\<close>
definition resolve_entry :: "value_entry \<Rightarrow> jsval" where
  "resolve_entry v = coalesce (coalesce (value_fld v) (text_fld v)) (dictionary_value_id v)"

text \<open>\<^verbatim>\<open>SIZE_ATTR_PATTERNS.some((p) => name.includes(p))\<close> for the lower-cased name.\<close>
definition name_matches :: "string list \<Rightarrow> attribute \<Rightarrow> bool" where
  "name_matches patterns a =
     (let name = toLowerCase (str_or_empty (attr_name a)) in list_ex (\<lambda>p. str_includes name p) patterns)"

text \<open>The loop of \<^verbatim>\<open>pickSizeAttributes\<close>, which pushes to \<^verbatim>\<open>out\<close>.\<close>
fun pick_loop :: "string list \<Rightarrow> attribute list \<Rightarrow> picked list \<Rightarrow> picked list" where
  "pick_loop patterns [] out = out"
| "pick_loop patterns (a # list) out =
     (if name_matches patterns a
      then let values = filter truthy (map resolve_entry (attr_values a))
           in pick_loop patterns list
                (out @ [\<lparr> picked_name = attr_name a, picked_attribute_id = attribute_id a, picked_values = values \<rparr>])
      else pick_loop patterns list out)"

definition pickSizeAttributes :: "string list \<Rightarrow> attrs_item \<Rightarrow> picked list" where
  "pickSizeAttributes patterns attrsItem = pick_loop patterns (attributes attrsItem) []"

text \<open>
  \<^verbatim>\<open>Array.prototype.sort\<close> without a comparator: a stable sort on the string form of the
  elements, \<^verbatim>\<open>undefined\<close> elements last.
\<close>
definition js_sort :: "jsval list \<Rightarrow> jsval list" where
  "js_sort vs = sort_key toString (filter (\<lambda>v. v \<noteq> JUndefined) vs) @ filter (\<lambda>v. v = JUndefined) vs"

text \<open>A member of an object: absent from the output when the value is \<^verbatim>\<open>undefined\<close>.\<close>
definition json_member :: "jsval \<Rightarrow> string option" where
  "json_member v = (if v = JUndefined then None else Some (json_scalar v))"

text \<open>The array \<^verbatim>\<open>norm\<close> of \<^verbatim>\<open>attrFingerprint\<close>: \<^verbatim>\<open>{ n, id, v }\<close> for each element.\<close>
definition attr_norm :: "picked list \<Rightarrow> (string option \<times> jsval \<times> jsval list) list" where
  "attr_norm arr = map (\<lambda>a. (picked_name a, picked_attribute_id a, js_sort (picked_values a))) arr"

text \<open>\<^verbatim>\<open>JSON.stringify(norm)\<close>\<close>
definition stringify_norm :: "(string option \<times> jsval \<times> jsval list) list \<Rightarrow> string" where
  "stringify_norm norm_arr =
     json_array (map (\<lambda>(n, i, v).
        json_object [(''n'', map_option json_string n), (''id'', json_member i),
                     (''v'', Some (json_array (map json_scalar v)))]) norm_arr)"

definition attrFingerprint :: "picked list \<Rightarrow> string" where
  "attrFingerprint arr = (let norm_arr = attr_norm arr; str = stringify_norm norm_arr in sha256_hex str)"

section \<open>Configuration, baseline store, remote source\<close>

text \<open>The module constants read from the environment.\<close>
record config =
  SIZE_TRACKING_MODE :: string
  SIZE_ATTR_PATTERNS :: "string list"
  NOTIFY_ON_NEW :: bool

text \<open>
  The parameters of \<^verbatim>\<open>stmtUpsertProd\<close>, and a row of the table \<^verbatim>\<open>products\<close>, which adds
  \<^verbatim>\<open>last_seen_at\<close>. The table of \<^verbatim>\<open>main.js\<close> has no column \<^verbatim>\<open>attr_hash\<close>: its rows carry
  \<open>None\<close> there.
\<close>
record upsert = dims +
  row_offer_id :: string
  row_product_id :: int
  row_name :: string
  row_updated_at :: string
  dim_hash :: string
  attr_hash :: "string option"

record product_row = upsert +
  last_seen_at :: string

type_synonym store = "string \<rightharpoonup> product_row"

text \<open>\<^verbatim>\<open>stmtUpsertProd.run(r)\<close> at the time \<open>now\<close>, and \<^verbatim>\<open>txUpsertMany\<close>.\<close>
definition stmtUpsertProd :: "string \<Rightarrow> store \<Rightarrow> upsert \<Rightarrow> store" where
  "stmtUpsertProd now db r = db(row_offer_id r \<mapsto> upsert.extend r (product_row.fields now))"

definition txUpsertMany :: "string \<Rightarrow> store \<Rightarrow> upsert list \<Rightarrow> store" where
  "txUpsertMany now db rows = foldl (stmtUpsertProd now) db rows"

datatype error = Error string

text \<open>
  The answers of the remote source: for a request with the given offer ids, the items of
  the response or a failure (the exception that \<^verbatim>\<open>ozonPost\<close> throws).
\<close>
record network =
  info_list :: "string list \<Rightarrow> error + info_item list"
  info_v2 :: "string list \<Rightarrow> error + info_item list"
  attributes_v4 :: "string list \<Rightarrow> error + attrs_item list"

definition fetchInfoList :: "network \<Rightarrow> string list \<Rightarrow> error + info_item list" where
  "fetchInfoList net offerIds = (if offerIds = [] then Inr [] else info_list net offerIds)"

definition fetchInfoV2 :: "network \<Rightarrow> string list \<Rightarrow> error + info_item list" where
  "fetchInfoV2 net offerIds = (if offerIds = [] then Inr [] else info_v2 net offerIds)"

definition fetchAttributesV4 :: "network \<Rightarrow> string list \<Rightarrow> error + attrs_item list" where
  "fetchAttributesV4 net offerIds = (if offerIds = [] then Inr [] else attributes_v4 net offerIds)"

text \<open>
  A notification: the message function and its arguments. The HTML text that the message
  function builds is not modelled.
\<close>
datatype notification =
    NewProductMessage string info_item dims
  | DimDiffMessage string info_item dims dims
  | AttrDiffMessage string info_item "picked list" "picked list"
  | MonitoringError string

section \<open>The batch\<close>

text \<open>
  \<^verbatim>\<open>arr.reduce((acc, _, i) => (i % n ? acc : [...acc, arr.slice(i, i + n)]), [])\<close>. For
  \<open>n = 0\<close> the remainder is \<^verbatim>\<open>NaN\<close>, which is falsy.
\<close>
definition chunk :: "'a list \<Rightarrow> nat \<Rightarrow> 'a list list" where
  "chunk arr n =
     foldl (\<lambda>acc i. if n \<noteq> 0 \<and> i mod n \<noteq> 0 then acc else acc @ [take n (drop i arr)])
       [] [0..<length arr]"

text \<open>
  Step 1 of \<^verbatim>\<open>processBatch\<close>, the same in both files: the bulk endpoint, and when it fails
  the second endpoint on groups of 100, a failing group being skipped.
\<close>
definition fetchInfoItems :: "network \<Rightarrow> string list \<Rightarrow> info_item list" where
  "fetchInfoItems net offerIds =
     (case fetchInfoList net offerIds of
        Inr items \<Rightarrow> items
      | Inl e \<Rightarrow>
          foldl (\<lambda>infoItems bb. case fetchInfoV2 net bb of Inr items \<Rightarrow> infoItems @ items | Inl e' \<Rightarrow> infoItems)
            [] (chunk offerIds 100))"

text \<open>\<^verbatim>\<open>new Map(items.map((x) => [x.offer_id, x]))\<close>: a later item replaces an earlier one.\<close>
definition by_offer :: "'a api_item_scheme list \<Rightarrow> (string option \<rightharpoonup> 'a api_item_scheme)" where
  "by_offer items = foldl (\<lambda>m x. m(offer_id x \<mapsto> x)) Map.empty items"

definition attribute_mode :: "config \<Rightarrow> bool" where
  "attribute_mode cfg = (SIZE_TRACKING_MODE cfg = ''ATTRIBUTE'' \<or> SIZE_TRACKING_MODE cfg = ''BOTH'')"

text \<open>What a batch has staged and sent so far.\<close>
record batch_state =
  upserts :: "upsert list"
  sent :: "notification list"

text \<open>The outcome of a batch: the store after it, the staged upserts, the notifications.\<close>
record batch_result =
  store_after :: store
  staged :: "upsert list"
  notified :: "notification list"

definition notifyAll :: "notification \<Rightarrow> batch_state \<Rightarrow> batch_state" where
  "notifyAll msg st = st \<lparr> sent := sent st @ [msg] \<rparr>"

definition push_upsert :: "upsert \<Rightarrow> batch_state \<Rightarrow> batch_state" where
  "push_upsert r st = st \<lparr> upserts := upserts st @ [r] \<rparr>"

definition old_dims :: "product_row \<Rightarrow> dims" where
  "old_dims prev = \<lparr> depth_mm = depth_mm prev, width_mm = width_mm prev,
                      height_mm = height_mm prev, weight_g = weight_g prev \<rparr>"

subsection \<open>\<^verbatim>\<open>processBatch\<close> of \<^verbatim>\<open>index.js\<close>\<close>

text \<open>Step 2: the attributes endpoint on groups of 100, a failing group being skipped.\<close>
definition fetchAttrItems_index :: "network \<Rightarrow> string list \<Rightarrow> attrs_item list" where
  "fetchAttrItems_index net offerIds =
     foldl (\<lambda>attrItems bb. case fetchAttributesV4 net bb of Inr items \<Rightarrow> attrItems @ items | Inl e \<Rightarrow> attrItems)
       [] (chunk offerIds 100)"

text \<open>How an iteration of the loop ends: it goes on, or \<^verbatim>\<open>return\<close> leaves the function.\<close>
datatype 'a flow = Next 'a | Return 'a

fun state_of :: "'a flow \<Rightarrow> 'a" where
  "state_of (Next s) = s"
| "state_of (Return s) = s"

text \<open>The body of the loop over \<^verbatim>\<open>infoItems\<close>.\<close>
definition reconcile_index ::
  "config \<Rightarrow> store \<Rightarrow> (string option \<rightharpoonup> attrs_item) \<Rightarrow> info_item \<Rightarrow> batch_state \<Rightarrow> batch_state flow" where
  "reconcile_index cfg db attrsByOffer it st =
     (let offer_id' = or_str (or_str (offer_id it) (offerId it)) (offer it) in
      if str_or_empty offer_id' = [] then Next st
      else
        let oid = str_or_empty offer_id';
            name' = str_or_empty (name it);
            updated_at' = str_or_empty (or_str (updated_at it) (updatedAt it))
        in case db oid of
             None \<Rightarrow>
               let dims = extractDims it;
                   dimHash = sizeFingerprint dims;
                   st1 = (if NOTIFY_ON_NEW cfg then notifyAll (NewProductMessage oid it dims) st else st)
               in Return (push_upsert
                    \<lparr> depth_mm = depth_mm dims, width_mm = width_mm dims, height_mm = height_mm dims,
                      weight_g = weight_g dims, row_offer_id = oid,
                      row_product_id = int_or_zero (or_int (id_fld it) (product_id it)),
                      row_name = str_or_empty (name it),
                      row_updated_at = str_or_empty (or_str (updated_at it) (updatedAt it)),
                      dim_hash = dimHash, attr_hash = None \<rparr> st1)
           | Some prev \<Rightarrow>
               if row_updated_at prev \<noteq> [] \<and> updated_at' \<noteq> [] \<and> row_updated_at prev = updated_at'
                  \<and> SIZE_TRACKING_MODE cfg = ''DIMENSIONS''
               then Next (push_upsert
                    \<lparr> depth_mm = depth_mm prev, width_mm = width_mm prev, height_mm = height_mm prev,
                      weight_g = weight_g prev, row_offer_id = oid,
                      row_product_id = int_or_zero (or_int (id_fld it) (product_id it)),
                      row_name = name', row_updated_at = updated_at',
                      dim_hash = dim_hash prev, attr_hash = attr_hash prev \<rparr> st)
               else
                 let dims = extractDims it;
                     dimHash = sizeFingerprint dims;
                     attrHash =
                       (if attribute_mode cfg
                        then let picked = (case attrsByOffer (Some oid) of
                                             Some attrsItem \<Rightarrow> pickSizeAttributes (SIZE_ATTR_PATTERNS cfg) attrsItem
                                           | None \<Rightarrow> [])
                             in Some (attrFingerprint picked)
                        else or_str (attr_hash prev) None);
                     st1 = (if (SIZE_TRACKING_MODE cfg = ''DIMENSIONS'' \<or> SIZE_TRACKING_MODE cfg = ''BOTH'')
                               \<and> dim_hash prev \<noteq> [] \<and> dim_hash prev \<noteq> dimHash
                            then notifyAll (DimDiffMessage oid it (old_dims prev) dims) st else st);
                     st2 = (if attribute_mode cfg \<and> str_or_empty (attr_hash prev) \<noteq> [] \<and> attr_hash prev \<noteq> attrHash
                            then notifyAll (AttrDiffMessage oid it [] []) st1 else st1)
                 in Next (push_upsert
                      \<lparr> depth_mm = depth_mm dims, width_mm = width_mm dims, height_mm = height_mm dims,
                        weight_g = weight_g dims, row_offer_id = oid,
                        row_product_id = int_or_zero (or_int (id_fld it) (product_id it)),
                        row_name = name', row_updated_at = updated_at',
                        dim_hash = dimHash, attr_hash = attrHash \<rparr> st2))"

fun loop_index ::
  "config \<Rightarrow> store \<Rightarrow> (string option \<rightharpoonup> attrs_item) \<Rightarrow> info_item list \<Rightarrow> batch_state \<Rightarrow> batch_state flow" where
  "loop_index cfg db attrsByOffer [] st = Next st"
| "loop_index cfg db attrsByOffer (it # infoItems) st =
     (case reconcile_index cfg db attrsByOffer it st of
        Return st' \<Rightarrow> Return st'
      | Next st' \<Rightarrow> loop_index cfg db attrsByOffer infoItems st')"

text \<open>
  The whole function. No step of it lets an exception out: each fetch sits in a
  \<^verbatim>\<open>try\<close> whose \<^verbatim>\<open>catch\<close> goes on. After \<^verbatim>\<open>return\<close> in the loop the transaction of step 4
  is not reached.
\<close>
definition processBatch_index :: "config \<Rightarrow> network \<Rightarrow> string \<Rightarrow> store \<Rightarrow> string list \<Rightarrow> error + batch_result" where
  "processBatch_index cfg net now db offerIds =
     (let infoItems = fetchInfoItems net offerIds;
          attrsByOffer = (if attribute_mode cfg then by_offer (fetchAttrItems_index net offerIds) else Map.empty)
      in case loop_index cfg db attrsByOffer infoItems \<lparr> upserts = [], sent = [] \<rparr> of
           Return st \<Rightarrow> Inr \<lparr> store_after = db, staged = upserts st, notified = sent st \<rparr>
         | Next st \<Rightarrow>
             Inr \<lparr> store_after = (if upserts st \<noteq> [] then txUpsertMany now db (upserts st) else db),
                   staged = upserts st, notified = sent st \<rparr>)"

subsection \<open>\<^verbatim>\<open>processBatch\<close> of \<^verbatim>\<open>main.js\<close>\<close>

text \<open>The object \<^verbatim>\<open>{}\<close> as an item, and the stub \<^verbatim>\<open>{ offer_id }\<close>.\<close>
definition empty_info :: info_item where
  "empty_info = \<lparr> depth = JUndefined, length_fld = JUndefined, long = JUndefined, width = JUndefined,
     height = JUndefined, weight = JUndefined, dimension_unit = None, length_unit = None,
     width_unit = None, height_unit = None, unit_fld = None, weight_unit = None,
     offer_id = None, offerId = None, offer = None, id_fld = None, product_id = None, name = None,
     updated_at = None, updatedAt = None, dimensions = None, dimension = None,
     package_dimensions = None \<rparr>"

definition empty_attrs :: attrs_item where
  "empty_attrs = \<lparr> depth = JUndefined, length_fld = JUndefined, long = JUndefined, width = JUndefined,
     height = JUndefined, weight = JUndefined, dimension_unit = None, length_unit = None,
     width_unit = None, height_unit = None, unit_fld = None, weight_unit = None,
     offer_id = None, attributes = [] \<rparr>"

definition stub_info :: "string \<Rightarrow> info_item" where
  "stub_info oid = empty_info \<lparr> offer_id := Some oid \<rparr>"

text \<open>The body of the loop over \<^verbatim>\<open>offerIds\<close>.\<close>
definition reconcile_main ::
  "store \<Rightarrow> (string option \<rightharpoonup> info_item) \<Rightarrow> (string option \<rightharpoonup> attrs_item) \<Rightarrow> batch_state \<Rightarrow> string \<Rightarrow> batch_state" where
  "reconcile_main db infoByOffer attrsByOffer st oid =
     (let info = (case infoByOffer (Some oid) of Some x \<Rightarrow> x | None \<Rightarrow> stub_info oid);
          attrs = (case attrsByOffer (Some oid) of Some a \<Rightarrow> a | None \<Rightarrow> empty_attrs);
          dims = batchDims info attrs;
          newHash = sizeFingerprint dims;
          st1 = (case db oid of
                   Some prev \<Rightarrow>
                     if dim_hash prev \<noteq> [] \<and> dim_hash prev \<noteq> newHash
                     then notifyAll (DimDiffMessage oid info (old_dims prev) dims) st else st
                 | None \<Rightarrow> st)
      in push_upsert
           \<lparr> depth_mm = depth_mm dims, width_mm = width_mm dims, height_mm = height_mm dims,
             weight_g = weight_g dims, row_offer_id = oid,
             row_product_id = int_or_zero (or_int (id_fld info) (product_id info)),
             row_name = str_or_empty (name info),
             row_updated_at = str_or_empty (or_str (updated_at info) (updatedAt info)),
             dim_hash = newHash, attr_hash = None \<rparr> st1)"

text \<open>
  The whole function. The attributes are fetched by one request for the whole batch,
  outside any \<^verbatim>\<open>try\<close>: its failure leaves the function.
\<close>
definition processBatch_main :: "config \<Rightarrow> network \<Rightarrow> string \<Rightarrow> store \<Rightarrow> string list \<Rightarrow> error + batch_result" where
  "processBatch_main cfg net now db offerIds =
     (let infoItems = fetchInfoItems net offerIds;
          infoByOffer = by_offer infoItems
      in case (if attribute_mode cfg then fetchAttributesV4 net offerIds else Inr []) of
           Inl e \<Rightarrow> Inl e
         | Inr attrItems \<Rightarrow>
             let attrsByOffer = by_offer attrItems;
                 st = foldl (reconcile_main db infoByOffer attrsByOffer) \<lparr> upserts = [], sent = [] \<rparr> offerIds
             in Inr \<lparr> store_after = (if upserts st \<noteq> [] then txUpsertMany now db (upserts st) else db),
                      staged = upserts st, notified = sent st \<rparr>)"

section \<open>The scheduler of \<^verbatim>\<open>main.js\<close>\<close>

text \<open>
  \<^verbatim>\<open>tick\<close> runs in uninterrupted parts, which end at its \<^verbatim>\<open>await\<close>s: from its call to
  \<^verbatim>\<open>await scanOnce()\<close>; when that promise is rejected, \<^verbatim>\<open>catch\<close> up to
  \<^verbatim>\<open>await notifyAll(...)\<close>; and \<^verbatim>\<open>finally\<close>. The state is the flag \<^verbatim>\<open>isScanning\<close>. The
  fields \<open>in_flight\<close> and \<open>reporting\<close> are not in the source: they count the calls of
  \<^verbatim>\<open>scanOnce\<close>, and of \<^verbatim>\<open>notifyAll\<close> in \<^verbatim>\<open>catch\<close>, that have not settled.
\<close>
record scheduler =
  isScanning :: bool
  in_flight :: nat
  reporting :: nat

datatype effect = WriteLog string | CallScanOnce | NotifyAll notification

text \<open>The first part of \<^verbatim>\<open>tick\<close>.\<close>
definition tick_enter :: "scheduler \<Rightarrow> scheduler \<times> effect list" where
  "tick_enter s =
     (if isScanning s then (s, [WriteLog ''skip_overlap''])
      else (s \<lparr> isScanning := True, in_flight := in_flight s + 1 \<rparr>, [WriteLog ''tick_start'', CallScanOnce]))"

text \<open>
  \<^verbatim>\<open>catch\<close>: the error is logged and reported. A failure of the report is swallowed by
  the inner \<^verbatim>\<open>try\<close>.
\<close>
definition tick_catch :: "error \<Rightarrow> effect list" where
  "tick_catch e = (case e of Error msg \<Rightarrow> [WriteLog ''error'', NotifyAll (MonitoringError msg)])"

text \<open>\<^verbatim>\<open>finally\<close>\<close>
definition tick_finally :: "scheduler \<Rightarrow> scheduler \<times> effect list" where
  "tick_finally s = (s \<lparr> isScanning := False \<rparr>, [WriteLog ''tick_end''])"

text \<open>
  What happens to the scheduler: the timer calls \<^verbatim>\<open>tick\<close>, a running scan settles
  (\<open>None\<close> when it completes), or the report of an error settles.
\<close>
datatype event = TickFires | ScanSettles "error option" | ReportSettles

fun step :: "scheduler \<times> effect list \<Rightarrow> event \<Rightarrow> scheduler \<times> effect list" where
  "step (s, out) TickFires = (let (s', es) = tick_enter s in (s', out @ es))"
| "step (s, out) (ScanSettles None) =
     (if in_flight s = 0 then (s, out)
      else let (s', es) = tick_finally (s \<lparr> in_flight := in_flight s - 1 \<rparr>) in (s', out @ es))"
| "step (s, out) (ScanSettles (Some e)) =
     (if in_flight s = 0 then (s, out)
      else (s \<lparr> in_flight := in_flight s - 1, reporting := reporting s + 1 \<rparr>, out @ tick_catch e))"
| "step (s, out) ReportSettles =
     (if reporting s = 0 then (s, out)
      else let (s', es) = tick_finally (s \<lparr> reporting := reporting s - 1 \<rparr>) in (s', out @ es))"


section \<open>Example payloads\<close>

definition ex_conflict :: info_item where
  "ex_conflict = empty_info \<lparr> offer_id := Some ''A'', depth := JNum 10, dimension_unit := Some ''cm'',
     dimensions := Some (empty_obj \<lparr> depth := JNum 20, width := JNum 5, unit_fld := Some ''mm'' \<rparr>) \<rparr>"

definition ex_info :: info_item where
  "ex_info = empty_info \<lparr> offer_id := Some ''A'', id_fld := Some 11, name := Some ''Shelf'', updated_at := Some ''2024-05-01'',
     depth := JNum 100, width := JNum 50, height := JNum 20, weight := JNum 300,
     dimension_unit := Some ''mm'', weight_unit := Some ''g'' \<rparr>"

definition ex_attrs :: attrs_item where
  "ex_attrs = empty_attrs \<lparr> offer_id := Some ''A'', depth := JNum 120, width := JNum 60,
     height := JNum 30, weight := JNum 400 \<rparr>"

text \<open>
  Two attributes records that differ in the order of two value entries: one entry resolves
  to the string \<^verbatim>\<open>"5"\<close>, the other to the number \<^verbatim>\<open>5\<close>.
\<close>
definition ex_entry_str :: value_entry where
  "ex_entry_str = \<lparr> value_fld = JStr ''5'', text_fld = JUndefined, dictionary_value_id = JUndefined \<rparr>"

definition ex_entry_num :: value_entry where
  "ex_entry_num = \<lparr> value_fld = JUndefined, text_fld = JUndefined, dictionary_value_id = JNum 5 \<rparr>"

definition ex_mixed_a :: attrs_item where
  "ex_mixed_a = empty_attrs \<lparr> offer_id := Some ''A'',
     attributes := [\<lparr> attr_name = Some ''Size'', attribute_id = JNum 1, attr_values = [ex_entry_str, ex_entry_num] \<rparr>] \<rparr>"

definition ex_mixed_b :: attrs_item where
  "ex_mixed_b = empty_attrs \<lparr> offer_id := Some ''A'',
     attributes := [\<lparr> attr_name = Some ''Size'', attribute_id = JNum 1, attr_values = [ex_entry_num, ex_entry_str] \<rparr>] \<rparr>"



text \<open>Configurations, a time, a second bulk-info record, answers of the remote source.\<close>
definition ex_now :: string where
  "ex_now = ''2024-06-01 12:00:00''"

definition ex_cfg :: config where
  "ex_cfg = \<lparr> SIZE_TRACKING_MODE = ''DIMENSIONS'', SIZE_ATTR_PATTERNS = [''size''], NOTIFY_ON_NEW = False \<rparr>"

definition ex_cfg_both :: config where
  "ex_cfg_both = \<lparr> SIZE_TRACKING_MODE = ''BOTH'', SIZE_ATTR_PATTERNS = [''size''], NOTIFY_ON_NEW = False \<rparr>"

definition ex_info_B :: info_item where
  "ex_info_B = empty_info \<lparr> offer_id := Some ''B'', id_fld := Some 12, name := Some ''Box'', updated_at := Some ''2024-05-02'',
     depth := JNum 10, width := JNum 10, height := JNum 10, weight := JNum 1,
     dimension_unit := Some ''cm'', weight_unit := Some ''kg'' \<rparr>"

text \<open>The bulk endpoint answers with the given records; nothing else is asked.\<close>
definition ex_net :: "info_item list \<Rightarrow> network" where
  "ex_net items = \<lparr> info_list = (\<lambda>ids. Inr items), info_v2 = (\<lambda>ids. Inr []), attributes_v4 = (\<lambda>ids. Inr []) \<rparr>"

text \<open>Every request fails.\<close>
definition ex_net_down :: network where
  "ex_net_down = \<lparr> info_list = (\<lambda>ids. Inl (Error ''503'')), info_v2 = (\<lambda>ids. Inl (Error ''503'')),
     attributes_v4 = (\<lambda>ids. Inl (Error ''503'')) \<rparr>"

text \<open>The attributes endpoint fails, the bulk endpoint answers.\<close>
definition ex_net_attrs_down :: network where
  "ex_net_attrs_down = \<lparr> info_list = (\<lambda>ids. Inr [ex_info]), info_v2 = (\<lambda>ids. Inr []),
     attributes_v4 = (\<lambda>ids. Inl (Error ''timeout'')) \<rparr>"

text \<open>The attributes endpoint fails on a request of 100 ids and answers any other.\<close>
definition ex_net_groups :: network where
  "ex_net_groups = \<lparr> info_list = (\<lambda>ids. Inr []), info_v2 = (\<lambda>ids. Inr []),
     attributes_v4 = (\<lambda>ids. if length ids = 100 then Inl (Error ''timeout'') else Inr [ex_attrs]) \<rparr>"

text \<open>The offer ids \<^verbatim>\<open>"1"\<close> to \<^verbatim>\<open>"101"\<close>.\<close>
definition ex_ids :: "string list" where
  "ex_ids = map show_nat [1..<102]"

text \<open>
  The row that a scan has stored for the record \<open>ex_info\<close>; its \<^verbatim>\<open>dim_hash\<close> is the
  fingerprint of its dimensions. The same row without a timestamp.
\<close>
definition ex_row :: product_row where
  "ex_row = \<lparr> depth_mm = Some 100, width_mm = Some 50, height_mm = Some 20, weight_g = Some 300,
     row_offer_id = ''A'', row_product_id = 11, row_name = ''Shelf'', row_updated_at = ''2024-05-01'',
     dim_hash = ''fbc2112b7eff654db66bd0a82097e761ff79c2051095a1fa81665d6d216ac178'',
     attr_hash = None, last_seen_at = ''2024-05-01 12:00:00'' \<rparr>"

definition ex_row_undated :: product_row where
  "ex_row_undated = ex_row \<lparr> row_updated_at := [] \<rparr>"

text \<open>The record \<open>ex_info\<close> renamed; with a depth of 120; with that depth and no timestamp.\<close>
definition ex_info_renamed :: info_item where
  "ex_info_renamed = ex_info \<lparr> name := Some ''Shelf v2'' \<rparr>"

definition ex_info_deeper :: info_item where
  "ex_info_deeper = ex_info \<lparr> depth := JNum 120 \<rparr>"

definition ex_info_undated :: info_item where
  "ex_info_undated = ex_info \<lparr> depth := JNum 120, updated_at := None \<rparr>"

section \<open>Properties\<close>

subsection \<open>Unit normalisation and dimension extraction\<close>


text \<open>
  C5. When the candidate built from the direct fields of a bulk-info record has a non-null
  value in any of its four fields, \<^verbatim>\<open>extractDims\<close> (and \<^verbatim>\<open>extractDimsFromInfo\<close>) returns
  that candidate in all four fields, whatever the nested object holds: nothing of the
  nested candidate is merged in.
\<close>
theorem direct_fields_win:
  assumes "depth_mm (maybe (direct it)) \<noteq> None \<or> width_mm (maybe (direct it)) \<noteq> None
      \<or> height_mm (maybe (direct it)) \<noteq> None \<or> weight_g (maybe (direct it)) \<noteq> None"
  shows "extractDims it = maybe (direct it) \<and> extractDimsFromInfo it = maybe (direct it)"
  using assms by (auto simp: extractDims_def extractDimsFromInfo_def Let_def non_null_def)

text \<open>
  The record \<open>ex_conflict\<close> has a direct depth of 10 cm and a nested object with a depth of
  20 mm and a width of 5 mm: the result is the direct candidate, its width null.
\<close>
theorem direct_fields_win_witness:
  "depth_mm (maybe (direct ex_conflict)) = Some 100
   \<and> maybe (nested ex_conflict) = \<lparr> depth_mm = Some 20, width_mm = Some 5, height_mm = None, weight_g = None \<rparr>
   \<and> extractDims ex_conflict = \<lparr> depth_mm = Some 100, width_mm = None, height_mm = None, weight_g = None \<rparr>
   \<and> extractDimsFromInfo ex_conflict = \<lparr> depth_mm = Some 100, width_mm = None, height_mm = None, weight_g = None \<rparr>"
proof -
  have d: "maybe (direct ex_conflict) = \<lparr> depth_mm = Some 100, width_mm = None, height_mm = None, weight_g = None \<rparr>"
    by code_simp
  have n: "maybe (nested ex_conflict) = \<lparr> depth_mm = Some 20, width_mm = Some 5, height_mm = None, weight_g = None \<rparr>"
    by code_simp
  from d have "depth_mm (maybe (direct ex_conflict)) \<noteq> None" by simp
  with direct_fields_win [of ex_conflict] d n show ?thesis by simp
qed




text \<open>
  C3. There is a bulk-info record and an attributes record, each with four non-null
  dimensions that disagree, on which the dimensions of \<^verbatim>\<open>index.js\<close> (\<^verbatim>\<open>extractDims\<close> of the
  bulk-info record) differ from the dimensions of \<^verbatim>\<open>main.js\<close> (the root fields of the
  attributes record first).
\<close>
theorem extraction_policies_differ:
  "\<exists>(info :: info_item) (attrs :: attrs_item).
     extractDims info = \<lparr> depth_mm = Some 100, width_mm = Some 50, height_mm = Some 20, weight_g = Some 300 \<rparr>
     \<and> batchDims info attrs = \<lparr> depth_mm = Some 120, width_mm = Some 60, height_mm = Some 30, weight_g = Some 400 \<rparr>
     \<and> extractDims info \<noteq> batchDims info attrs"
proof -
  have a: "extractDims ex_info = \<lparr> depth_mm = Some 100, width_mm = Some 50, height_mm = Some 20, weight_g = Some 300 \<rparr>"
    by code_simp
  have b: "batchDims ex_info ex_attrs = \<lparr> depth_mm = Some 120, width_mm = Some 60, height_mm = Some 30, weight_g = Some 400 \<rparr>"
    by code_simp
  from a b have "extractDims ex_info \<noteq> batchDims ex_info ex_attrs" by simp
  with a b show ?thesis by blast
qed

subsection \<open>Attribute selection and fingerprints\<close>








lemma sizeFingerprint_cong:
  "depth_mm d1 = depth_mm d2 \<Longrightarrow> width_mm d1 = width_mm d2 \<Longrightarrow> height_mm d1 = height_mm d2
   \<Longrightarrow> weight_g d1 = weight_g d2 \<Longrightarrow> sizeFingerprint d1 = sizeFingerprint d2"
  by (simp add: sizeFingerprint_def)

text \<open>
  The sort puts a list of values into an order that depends on the values only, provided
  no two different values have the same string form; a list of strings is such a list.
\<close>
lemma js_sort_perm:
  assumes "mset vs = mset ws" and "inj_on toString (set vs)"
  shows "js_sort vs = js_sort ws"
proof -
  let ?P = "\<lambda>v. v \<noteq> JUndefined"
  have m: "mset (filter ?P vs) = mset (filter ?P ws)"
    using assms(1) by (metis mset_filter)
  have i: "inj_on toString (set (filter ?P vs))"
    using assms(2) by (auto intro: inj_on_subset)
  have s: "sort_key toString (filter ?P vs) = sort_key toString (filter ?P ws)"
    using m i by (rule sort_key_eq_sort_key)
  have c: "count (mset vs) JUndefined = count (mset ws) JUndefined"
    using assms(1) by simp
  have u: "filter (\<lambda>v. v = JUndefined) xs = replicate (count (mset xs) JUndefined) JUndefined" for xs
    by (induction xs) auto
  show ?thesis
    unfolding js_sort_def using s c u by metis
qed

lemma inj_on_toString_strings:
  assumes "\<forall>v \<in> set vs. \<exists>s. v = JStr s"
  shows "inj_on toString (set vs)"
proof (rule inj_onI)
  fix x y assume "x \<in> set vs" "y \<in> set vs" "toString x = toString y"
  with assms obtain s t where "x = JStr s" "y = JStr t" by blast
  with \<open>toString x = toString y\<close> show "x = y" by simp
qed

lemma attrFingerprint_order_independent:
  assumes "list_all2 (\<lambda>a b. picked_name a = picked_name b \<and> picked_attribute_id a = picked_attribute_id b
             \<and> mset (picked_values a) = mset (picked_values b)
             \<and> inj_on toString (set (picked_values a))) arr1 arr2"
  shows "attrFingerprint arr1 = attrFingerprint arr2"
proof -
  have "attr_norm arr1 = attr_norm arr2"
    using assms unfolding attr_norm_def
    by (induction arr1 arr2 rule: list_all2_induct) (auto simp: js_sort_perm)
  then show ?thesis by (simp add: attrFingerprint_def)
qed

text \<open>
  C8, at an input where it fails. The records \<open>ex_mixed_a\<close> and \<open>ex_mixed_b\<close> hold the same
  attribute with the same two value entries in the two orders; one entry resolves to the
  string \<^verbatim>\<open>"5"\<close>, the other to the number \<^verbatim>\<open>5\<close>. The sort compares string forms, the two
  are equal there, and each list stays in its order: the hashed strings are
  \<^verbatim>\<open>[{"n":"Size","id":1,"v":["5",5]}]\<close> and \<^verbatim>\<open>[{"n":"Size","id":1,"v":[5,"5"]}]\<close>, and the
  fingerprints differ.
\<close>
theorem mixed_values_fingerprints:
  "pickSizeAttributes [''size''] ex_mixed_a =
     [\<lparr> picked_name = Some ''Size'', picked_attribute_id = JNum 1, picked_values = [JStr ''5'', JNum 5] \<rparr>]
   \<and> pickSizeAttributes [''size''] ex_mixed_b =
     [\<lparr> picked_name = Some ''Size'', picked_attribute_id = JNum 1, picked_values = [JNum 5, JStr ''5''] \<rparr>]
   \<and> attrFingerprint (pickSizeAttributes [''size''] ex_mixed_a) =
       ''e7ab39f2c3140f2aa0ddd4bea2a9daa7e7c2761d0c00ae81175bcb61f9c8abf9''
   \<and> attrFingerprint (pickSizeAttributes [''size''] ex_mixed_b) =
       ''7bb13bf7161e612a2c5c6bbf3c675fd02a447404cb82500ece29a2956595dd8f''"
  by code_simp

subsection \<open>The batch\<close>

text \<open>Fingerprints and dimensions of the example payloads.\<close>
lemma fp_row:
  "sizeFingerprint \<lparr> depth_mm = Some 100, width_mm = Some 50, height_mm = Some 20, weight_g = Some 300 \<rparr>
   = ''fbc2112b7eff654db66bd0a82097e761ff79c2051095a1fa81665d6d216ac178''"
  by code_simp

lemma fp_null:
  "sizeFingerprint \<lparr> depth_mm = None, width_mm = None, height_mm = None, weight_g = None \<rparr>
   = ''c450df0cd31c51a7d31437c3a24ad8e0a3f241cdbd522faadf7336e507585903''"
  by code_simp

lemma fp_deeper:
  "sizeFingerprint \<lparr> depth_mm = Some 120, width_mm = Some 50, height_mm = Some 20, weight_g = Some 300 \<rparr>
   = ''0bc257a7dfba82051284ec2f29193475f9affaafa748c0324a71f069780f773a''"
  by code_simp

lemma ex_dims:
  "extractDims ex_info = \<lparr> depth_mm = Some 100, width_mm = Some 50, height_mm = Some 20, weight_g = Some 300 \<rparr>"
  "extractDims ex_info_B = \<lparr> depth_mm = Some 100, width_mm = Some 100, height_mm = Some 100, weight_g = Some 1000 \<rparr>"
  "extractDims ex_info_undated = \<lparr> depth_mm = Some 120, width_mm = Some 50, height_mm = Some 20, weight_g = Some 300 \<rparr>"
  "batchDims ex_info empty_attrs = \<lparr> depth_mm = Some 100, width_mm = Some 50, height_mm = Some 20, weight_g = Some 300 \<rparr>"
  "batchDims ex_info_B empty_attrs = \<lparr> depth_mm = Some 100, width_mm = Some 100, height_mm = Some 100, weight_g = Some 1000 \<rparr>"
  "batchDims ex_info_deeper empty_attrs = \<lparr> depth_mm = Some 120, width_mm = Some 50, height_mm = Some 20, weight_g = Some 300 \<rparr>"
  "batchDims (stub_info ''A'') empty_attrs = \<lparr> depth_mm = None, width_mm = None, height_mm = None, weight_g = None \<rparr>"
  by code_simp+

lemma ex_sel:
  "offer_id ex_info = Some ''A''" "offerId ex_info = None" "offer ex_info = None" "id_fld ex_info = Some 11"
  "product_id ex_info = None" "name ex_info = Some ''Shelf''" "updated_at ex_info = Some ''2024-05-01''" "updatedAt ex_info = None"
  "offer_id ex_info_B = Some ''B''" "offerId ex_info_B = None" "offer ex_info_B = None" "id_fld ex_info_B = Some 12"
  "product_id ex_info_B = None" "name ex_info_B = Some ''Box''" "updated_at ex_info_B = Some ''2024-05-02''" "updatedAt ex_info_B = None"
  "offer_id ex_info_renamed = Some ''A''" "offerId ex_info_renamed = None" "offer ex_info_renamed = None" "id_fld ex_info_renamed = Some 11"
  "product_id ex_info_renamed = None" "name ex_info_renamed = Some ''Shelf v2''" "updated_at ex_info_renamed = Some ''2024-05-01''" "updatedAt ex_info_renamed = None"
  "offer_id ex_info_deeper = Some ''A''" "offerId ex_info_deeper = None" "offer ex_info_deeper = None" "id_fld ex_info_deeper = Some 11"
  "product_id ex_info_deeper = None" "name ex_info_deeper = Some ''Shelf''" "updated_at ex_info_deeper = Some ''2024-05-01''" "updatedAt ex_info_deeper = None"
  "offer_id ex_info_undated = Some ''A''" "offerId ex_info_undated = None" "offer ex_info_undated = None" "id_fld ex_info_undated = Some 11"
  "product_id ex_info_undated = None" "name ex_info_undated = Some ''Shelf''" "updated_at ex_info_undated = None" "updatedAt ex_info_undated = None"
  "id_fld (stub_info oid) = None" "product_id (stub_info oid) = None" "name (stub_info oid) = None"
  "updated_at (stub_info oid) = None" "updatedAt (stub_info oid) = None"
  by (simp_all add: ex_info_def ex_info_B_def ex_info_renamed_def ex_info_deeper_def ex_info_undated_def
        stub_info_def empty_info_def)

lemmas batch_defs = processBatch_index_def processBatch_main_def fetchInfoItems_def fetchInfoList_def
  fetchInfoV2_def fetchAttributesV4_def fetchAttrItems_index_def reconcile_index_def reconcile_main_def
  by_offer_def attribute_mode_def notifyAll_def push_upsert_def old_dims_def txUpsertMany_def
  stmtUpsertProd_def or_str_def or_int_def str_or_empty_def int_or_zero_def Let_def
  upsert.extend_def product_row.fields_def

lemmas ex_defs = ex_cfg_def ex_cfg_both_def ex_net_def ex_net_down_def ex_net_attrs_down_def ex_now_def
  ex_row_def ex_row_undated_def

lemma chunk_one: "chunk [x] 100 = [[x]]"
  by (simp add: chunk_def)

lemma txUpsertMany_snoc:
  "txUpsertMany now db (rows @ [r]) = stmtUpsertProd now (txUpsertMany now db rows) r"
  by (simp add: txUpsertMany_def)

lemma txUpsertMany_other:
  "\<forall>u \<in> set rows. row_offer_id u \<noteq> oid \<Longrightarrow> txUpsertMany now db rows oid = db oid"
proof (induction rows rule: rev_induct)
  case Nil
  show ?case by (simp add: txUpsertMany_def)
next
  case (snoc r rows)
  from snoc.prems have "row_offer_id r \<noteq> oid" by simp
  then have "stmtUpsertProd now (txUpsertMany now db rows) r oid = txUpsertMany now db rows oid"
    by (simp add: stmtUpsertProd_def)
  with snoc show ?case by (simp add: txUpsertMany_snoc)
qed

lemma txUpsertMany_some:
  "\<exists>u \<in> set rows. row_offer_id u = oid \<Longrightarrow> txUpsertMany now db rows oid \<noteq> None"
proof (induction rows rule: rev_induct)
  case Nil
  then show ?case by simp
next
  case (snoc r rows)
  show ?case
  proof (cases "row_offer_id r = oid")
    case True
    then have "stmtUpsertProd now (txUpsertMany now db rows) r oid \<noteq> None"
      by (simp add: stmtUpsertProd_def)
    then show ?thesis by (simp add: txUpsertMany_snoc)
  next
    case False
    with snoc.prems have "\<exists>u \<in> set rows. row_offer_id u = oid" by auto
    then have "txUpsertMany now db rows oid \<noteq> None" by (rule snoc.IH)
    moreover from False
    have "stmtUpsertProd now (txUpsertMany now db rows) r oid = txUpsertMany now db rows oid"
      by (simp add: stmtUpsertProd_def)
    ultimately show ?thesis by (simp add: txUpsertMany_snoc)
  qed
qed

text \<open>
  \<^verbatim>\<open>processBatch\<close> of \<^verbatim>\<open>index.js\<close> stages upserts for the offers of the fetched records
  only: an offer without a fetched record keeps its row.
\<close>
lemma reconcile_index_other:
  assumes "str_or_empty (or_str (or_str (offer_id it) (offerId it)) (offer it)) \<noteq> oid"
    and "\<forall>u \<in> set (upserts st). row_offer_id u \<noteq> oid"
  shows "\<forall>u \<in> set (upserts (state_of (reconcile_index cfg db attrsByOffer it st))). row_offer_id u \<noteq> oid"
  using assms
  by (auto simp: reconcile_index_def Let_def push_upsert_def notifyAll_def split: option.splits)

lemma loop_index_other:
  assumes "\<forall>it \<in> set infoItems. str_or_empty (or_str (or_str (offer_id it) (offerId it)) (offer it)) \<noteq> oid"
    and "\<forall>u \<in> set (upserts st). row_offer_id u \<noteq> oid"
  shows "\<forall>u \<in> set (upserts (state_of (loop_index cfg db attrsByOffer infoItems st))). row_offer_id u \<noteq> oid"
  using assms
proof (induction infoItems arbitrary: st)
  case Nil
  then show ?case by simp
next
  case (Cons it infoItems)
  from Cons.prems
  have step: "\<forall>u \<in> set (upserts (state_of (reconcile_index cfg db attrsByOffer it st))). row_offer_id u \<noteq> oid"
    by (intro reconcile_index_other) simp_all
  show ?case
  proof (cases "reconcile_index cfg db attrsByOffer it st")
    case (Next st')
    with step have "\<forall>u \<in> set (upserts st'). row_offer_id u \<noteq> oid" by simp
    with Cons.IH [of st'] Cons.prems(1) Next show ?thesis by simp
  next
    case (Return st')
    with step show ?thesis by simp
  qed
qed

lemma index_unfetched_offer_untouched:
  assumes "\<forall>it \<in> set (fetchInfoItems net offerIds).
             str_or_empty (or_str (or_str (offer_id it) (offerId it)) (offer it)) \<noteq> oid"
    and "processBatch_index cfg net now db offerIds = Inr r"
  shows "(\<forall>u \<in> set (staged r). row_offer_id u \<noteq> oid) \<and> store_after r oid = db oid"
proof -
  define attrsByOffer where
    "attrsByOffer = (if attribute_mode cfg then by_offer (fetchAttrItems_index net offerIds) else Map.empty)"
  define fl where
    "fl = loop_index cfg db attrsByOffer (fetchInfoItems net offerIds) \<lparr> upserts = [], sent = [] \<rparr>"
  have other: "\<forall>u \<in> set (upserts (state_of fl)). row_offer_id u \<noteq> oid"
    unfolding fl_def using assms(1) by (intro loop_index_other) simp_all
  show ?thesis
  proof (cases fl)
    case (Next st)
    with assms(2) have r: "r = \<lparr> store_after = (if upserts st \<noteq> [] then txUpsertMany now db (upserts st) else db),
                   staged = upserts st, notified = sent st \<rparr>"
      by (simp add: processBatch_index_def Let_def fl_def attrsByOffer_def)
    from other Next have o: "\<forall>u \<in> set (upserts st). row_offer_id u \<noteq> oid" by simp
    then show ?thesis by (simp add: r txUpsertMany_other)
  next
    case (Return st)
    with assms(2) have r: "r = \<lparr> store_after = db, staged = upserts st, notified = sent st \<rparr>"
      by (simp add: processBatch_index_def Let_def fl_def attrsByOffer_def)
    from other Return show ?thesis by (simp add: r)
  qed
qed

text \<open>
  \<^verbatim>\<open>processBatch\<close> of \<^verbatim>\<open>main.js\<close> stages one upsert for each offer id of the batch, in
  order, and commits them; for an offer without a baseline it sends no change
  notification.
\<close>
lemma reconcile_main_upserts:
  "map row_offer_id (upserts (reconcile_main db infoByOffer attrsByOffer st oid')) = map row_offer_id (upserts st) @ [oid']"
  by (simp add: reconcile_main_def Let_def push_upsert_def notifyAll_def split: option.splits)

lemma reconcile_main_sent:
  assumes "db oid = None"
    and "\<forall>n \<in> set (sent st). \<forall>i d e. n \<noteq> DimDiffMessage oid i d e"
    and "\<forall>n \<in> set (sent st). \<forall>i p q. n \<noteq> AttrDiffMessage oid i p q"
  shows "(\<forall>n \<in> set (sent (reconcile_main db infoByOffer attrsByOffer st oid')). \<forall>i d e. n \<noteq> DimDiffMessage oid i d e)
       \<and> (\<forall>n \<in> set (sent (reconcile_main db infoByOffer attrsByOffer st oid')). \<forall>i p q. n \<noteq> AttrDiffMessage oid i p q)"
  using assms
  by (auto simp: reconcile_main_def Let_def push_upsert_def notifyAll_def split: option.splits if_splits)

lemma foldl_reconcile_main_upserts:
  "map row_offer_id (upserts (foldl (reconcile_main db infoByOffer attrsByOffer) st offerIds))
     = map row_offer_id (upserts st) @ offerIds"
  by (induction offerIds arbitrary: st) (simp_all add: reconcile_main_upserts)

lemma foldl_reconcile_main_sent:
  assumes "db oid = None"
    and "\<forall>n \<in> set (sent st). \<forall>i d e. n \<noteq> DimDiffMessage oid i d e"
    and "\<forall>n \<in> set (sent st). \<forall>i p q. n \<noteq> AttrDiffMessage oid i p q"
  shows "(\<forall>n \<in> set (sent (foldl (reconcile_main db infoByOffer attrsByOffer) st offerIds)). \<forall>i d e. n \<noteq> DimDiffMessage oid i d e)
       \<and> (\<forall>n \<in> set (sent (foldl (reconcile_main db infoByOffer attrsByOffer) st offerIds)). \<forall>i p q. n \<noteq> AttrDiffMessage oid i p q)"
  using assms
proof (induction offerIds arbitrary: st)
  case Nil
  then show ?case by simp
next
  case (Cons oid' offerIds)
  from Cons.prems reconcile_main_sent [of db oid st infoByOffer attrsByOffer oid']
  have "(\<forall>n \<in> set (sent (reconcile_main db infoByOffer attrsByOffer st oid')). \<forall>i d e. n \<noteq> DimDiffMessage oid i d e)
       \<and> (\<forall>n \<in> set (sent (reconcile_main db infoByOffer attrsByOffer st oid')). \<forall>i p q. n \<noteq> AttrDiffMessage oid i p q)"
    by blast
  with Cons.IH [of "reconcile_main db infoByOffer attrsByOffer st oid'"] Cons.prems(1)
  show ?case by simp
qed

lemma main_new_offer_general:
  assumes "db oid = None"
    and "processBatch_main cfg net now db offerIds = Inr r"
  shows "(\<forall>n \<in> set (notified r). \<forall>i d e. n \<noteq> DimDiffMessage oid i d e)
       \<and> (\<forall>n \<in> set (notified r). \<forall>i p q. n \<noteq> AttrDiffMessage oid i p q)
       \<and> map row_offer_id (staged r) = offerIds
       \<and> (oid \<in> set offerIds \<longrightarrow> store_after r oid \<noteq> None)"
proof -
  from assms(2) obtain attrItems where
    r: "r = (let st = foldl (reconcile_main db (by_offer (fetchInfoItems net offerIds)) (by_offer attrItems))
                        \<lparr> upserts = [], sent = [] \<rparr> offerIds
             in \<lparr> store_after = (if upserts st \<noteq> [] then txUpsertMany now db (upserts st) else db),
                  staged = upserts st, notified = sent st \<rparr>)"
    by (auto simp: processBatch_main_def Let_def split: sum.splits)
  define st where "st = foldl (reconcile_main db (by_offer (fetchInfoItems net offerIds)) (by_offer attrItems))
                        \<lparr> upserts = [], sent = [] \<rparr> offerIds"
  have ids: "map row_offer_id (upserts st) = offerIds"
    unfolding st_def by (simp add: foldl_reconcile_main_upserts)
  have sent: "(\<forall>n \<in> set (sent st). \<forall>i d e. n \<noteq> DimDiffMessage oid i d e)
       \<and> (\<forall>n \<in> set (sent st). \<forall>i p q. n \<noteq> AttrDiffMessage oid i p q)"
    unfolding st_def using assms(1) by (intro foldl_reconcile_main_sent) simp_all
  have committed: "store_after r oid \<noteq> None" if "oid \<in> set offerIds"
  proof -
    from that ids have ex: "\<exists>u \<in> set (upserts st). row_offer_id u = oid"
      by (metis (no_types, lifting) image_iff list.set_map)
    then have "upserts st \<noteq> []" by auto
    with ex show ?thesis
      by (simp add: r Let_def st_def [symmetric] txUpsertMany_some)
  qed
  from ids sent committed show ?thesis
    by (simp add: r Let_def st_def [symmetric])
qed

text \<open>
  C1, at an input where \<^verbatim>\<open>index.js\<close> fails. The bulk endpoint answers a batch of two offers
  with two records, and neither offer has a baseline. At the first record
  \<^verbatim>\<open>processBatch\<close> of \<^verbatim>\<open>index.js\<close> stages one upsert, sends nothing and returns: the
  upsert is never committed and the second record is never looked at. On the same input
  \<^verbatim>\<open>processBatch\<close> of \<^verbatim>\<open>main.js\<close> stages one upsert for each offer, sends nothing and
  commits both.
\<close>
theorem index_new_offer_aborts_batch:
  "processBatch_index ex_cfg (ex_net [ex_info, ex_info_B]) ex_now Map.empty [''A'', ''B''] =
     Inr \<lparr> store_after = Map.empty,
           staged = [\<lparr> depth_mm = Some 100, width_mm = Some 50, height_mm = Some 20, weight_g = Some 300,
                       row_offer_id = ''A'', row_product_id = 11, row_name = ''Shelf'',
                       row_updated_at = ''2024-05-01'',
                       dim_hash = ''fbc2112b7eff654db66bd0a82097e761ff79c2051095a1fa81665d6d216ac178'',
                       attr_hash = None \<rparr>],
           notified = [] \<rparr>
   \<and> processBatch_main ex_cfg (ex_net [ex_info, ex_info_B]) ex_now Map.empty [''A'', ''B''] =
     Inr \<lparr> store_after =
             [''A'' \<mapsto> \<lparr> depth_mm = Some 100, width_mm = Some 50, height_mm = Some 20, weight_g = Some 300,
                       row_offer_id = ''A'', row_product_id = 11, row_name = ''Shelf'',
                       row_updated_at = ''2024-05-01'',
                       dim_hash = ''fbc2112b7eff654db66bd0a82097e761ff79c2051095a1fa81665d6d216ac178'',
                       attr_hash = None, last_seen_at = ''2024-06-01 12:00:00'' \<rparr>,
              ''B'' \<mapsto> \<lparr> depth_mm = Some 100, width_mm = Some 100, height_mm = Some 100, weight_g = Some 1000,
                       row_offer_id = ''B'', row_product_id = 12, row_name = ''Box'',
                       row_updated_at = ''2024-05-02'',
                       dim_hash = sizeFingerprint \<lparr> depth_mm = Some 100, width_mm = Some 100, height_mm = Some 100, weight_g = Some 1000 \<rparr>,
                       attr_hash = None, last_seen_at = ''2024-06-01 12:00:00'' \<rparr>],
           staged = [\<lparr> depth_mm = Some 100, width_mm = Some 50, height_mm = Some 20, weight_g = Some 300,
                       row_offer_id = ''A'', row_product_id = 11, row_name = ''Shelf'',
                       row_updated_at = ''2024-05-01'',
                       dim_hash = ''fbc2112b7eff654db66bd0a82097e761ff79c2051095a1fa81665d6d216ac178'',
                       attr_hash = None \<rparr>,
                     \<lparr> depth_mm = Some 100, width_mm = Some 100, height_mm = Some 100, weight_g = Some 1000,
                       row_offer_id = ''B'', row_product_id = 12, row_name = ''Box'',
                       row_updated_at = ''2024-05-02'',
                       dim_hash = sizeFingerprint \<lparr> depth_mm = Some 100, width_mm = Some 100, height_mm = Some 100, weight_g = Some 1000 \<rparr>,
                       attr_hash = None \<rparr>],
           notified = [] \<rparr>"
  by (simp add: batch_defs ex_defs ex_sel ex_dims fp_row)

text \<open>
  C2, at an input where \<^verbatim>\<open>main.js\<close> fails. The offer \<^verbatim>\<open>A\<close> has the baseline \<open>ex_row\<close>, and
  every request fails: the bulk endpoint, then the second endpoint on the one group. The
  loop of \<^verbatim>\<open>main.js\<close> runs over the offer ids, takes the stub \<^verbatim>\<open>{ offer_id }\<close> for the
  missing record, finds four null dimensions, sends a dimension-change notification and
  stages an upsert: the committed row has lost the dimensions, the name and the timestamp
  of the baseline.
\<close>
theorem main_unfetched_offer_overwritten:
  "processBatch_main ex_cfg ex_net_down ex_now [''A'' \<mapsto> ex_row] [''A''] =
     Inr \<lparr> store_after =
             [''A'' \<mapsto> \<lparr> depth_mm = None, width_mm = None, height_mm = None, weight_g = None,
                       row_offer_id = ''A'', row_product_id = 0, row_name = [], row_updated_at = [],
                       dim_hash = ''c450df0cd31c51a7d31437c3a24ad8e0a3f241cdbd522faadf7336e507585903'',
                       attr_hash = None, last_seen_at = ''2024-06-01 12:00:00'' \<rparr>],
           staged = [\<lparr> depth_mm = None, width_mm = None, height_mm = None, weight_g = None,
                       row_offer_id = ''A'', row_product_id = 0, row_name = [], row_updated_at = [],
                       dim_hash = ''c450df0cd31c51a7d31437c3a24ad8e0a3f241cdbd522faadf7336e507585903'',
                       attr_hash = None \<rparr>],
           notified = [DimDiffMessage ''A'' (stub_info ''A'')
                         \<lparr> depth_mm = Some 100, width_mm = Some 50, height_mm = Some 20, weight_g = Some 300 \<rparr>
                         \<lparr> depth_mm = None, width_mm = None, height_mm = None, weight_g = None \<rparr>] \<rparr>"
  by (simp add: batch_defs ex_defs ex_sel ex_dims fp_null chunk_one)

text \<open>
  C4, as the code has it. In \<^verbatim>\<open>index.js\<close>, when the record's offer has a baseline, the mode
  is \<^verbatim>\<open>DIMENSIONS\<close> and the timestamp of the record is not empty and equals the stored one,
  the iteration sends nothing and stages one upsert, which takes the four dimensions, the
  \<^verbatim>\<open>dim_hash\<close> and the \<^verbatim>\<open>attr_hash\<close> from the stored row and the product id and the name
  from the record; nothing is computed from the dimensions of the record.
\<close>
theorem fast_path_index:
  assumes "str_or_empty (or_str (or_str (offer_id it) (offerId it)) (offer it)) = oid"
    and "oid \<noteq> []"
    and "db oid = Some prev"
    and "SIZE_TRACKING_MODE cfg = ''DIMENSIONS''"
    and "str_or_empty (or_str (updated_at it) (updatedAt it)) = row_updated_at prev"
    and "row_updated_at prev \<noteq> []"
  shows "reconcile_index cfg db attrsByOffer it st =
     Next \<lparr> upserts = upserts st @
               [\<lparr> depth_mm = depth_mm prev, width_mm = width_mm prev, height_mm = height_mm prev,
                  weight_g = weight_g prev, row_offer_id = oid,
                  row_product_id = int_or_zero (or_int (id_fld it) (product_id it)),
                  row_name = str_or_empty (name it), row_updated_at = row_updated_at prev,
                  dim_hash = dim_hash prev, attr_hash = attr_hash prev \<rparr>],
            sent = sent st \<rparr>"
  using assms by (simp add: reconcile_index_def Let_def push_upsert_def)

theorem fast_path_index_witness:
  "reconcile_index ex_cfg [''A'' \<mapsto> ex_row] Map.empty ex_info_renamed \<lparr> upserts = [], sent = [] \<rparr> =
     Next \<lparr> upserts =
               [\<lparr> depth_mm = Some 100, width_mm = Some 50, height_mm = Some 20, weight_g = Some 300,
                  row_offer_id = ''A'', row_product_id = 11, row_name = ''Shelf v2'',
                  row_updated_at = ''2024-05-01'',
                  dim_hash = ''fbc2112b7eff654db66bd0a82097e761ff79c2051095a1fa81665d6d216ac178'',
                  attr_hash = None \<rparr>],
            sent = [] \<rparr>"
  using fast_path_index [of ex_info_renamed "''A''" "[''A'' \<mapsto> ex_row]" ex_row ex_cfg Map.empty
      "\<lparr> upserts = [], sent = [] \<rparr>"]
  by (simp add: ex_sel ex_defs or_str_def or_int_def str_or_empty_def int_or_zero_def)

text \<open>
  Three batches of one record for an offer with a baseline, the mode \<^verbatim>\<open>DIMENSIONS\<close> and
  equal timestamps. In \<^verbatim>\<open>index.js\<close> the committed row takes the new name of the record. In
  \<^verbatim>\<open>index.js\<close>, when both timestamps are empty, the dimensions are computed again and a
  notification is sent. In \<^verbatim>\<open>main.js\<close> the dimensions are always computed again.
\<close>
theorem fast_path_counterexample:
  "row_name ex_row = ''Shelf''
   \<and> processBatch_index ex_cfg (ex_net [ex_info_renamed]) ex_now [''A'' \<mapsto> ex_row] [''A''] =
     Inr \<lparr> store_after = [''A'' \<mapsto> ex_row \<lparr> row_name := ''Shelf v2'', last_seen_at := ''2024-06-01 12:00:00'' \<rparr>],
           staged = [\<lparr> depth_mm = Some 100, width_mm = Some 50, height_mm = Some 20, weight_g = Some 300,
                       row_offer_id = ''A'', row_product_id = 11, row_name = ''Shelf v2'',
                       row_updated_at = ''2024-05-01'',
                       dim_hash = ''fbc2112b7eff654db66bd0a82097e761ff79c2051095a1fa81665d6d216ac178'',
                       attr_hash = None \<rparr>],
           notified = [] \<rparr>
   \<and> row_updated_at ex_row_undated = str_or_empty (or_str (updated_at ex_info_undated) (updatedAt ex_info_undated))
   \<and> processBatch_index ex_cfg (ex_net [ex_info_undated]) ex_now [''A'' \<mapsto> ex_row_undated] [''A''] =
     Inr \<lparr> store_after =
             [''A'' \<mapsto> \<lparr> depth_mm = Some 120, width_mm = Some 50, height_mm = Some 20, weight_g = Some 300,
                       row_offer_id = ''A'', row_product_id = 11, row_name = ''Shelf'', row_updated_at = [],
                       dim_hash = ''0bc257a7dfba82051284ec2f29193475f9affaafa748c0324a71f069780f773a'',
                       attr_hash = None, last_seen_at = ''2024-06-01 12:00:00'' \<rparr>],
           staged = [\<lparr> depth_mm = Some 120, width_mm = Some 50, height_mm = Some 20, weight_g = Some 300,
                       row_offer_id = ''A'', row_product_id = 11, row_name = ''Shelf'', row_updated_at = [],
                       dim_hash = ''0bc257a7dfba82051284ec2f29193475f9affaafa748c0324a71f069780f773a'',
                       attr_hash = None \<rparr>],
           notified = [DimDiffMessage ''A'' ex_info_undated
                         \<lparr> depth_mm = Some 100, width_mm = Some 50, height_mm = Some 20, weight_g = Some 300 \<rparr>
                         \<lparr> depth_mm = Some 120, width_mm = Some 50, height_mm = Some 20, weight_g = Some 300 \<rparr>] \<rparr>
   \<and> row_updated_at ex_row = str_or_empty (or_str (updated_at ex_info_deeper) (updatedAt ex_info_deeper))
   \<and> processBatch_main ex_cfg (ex_net [ex_info_deeper]) ex_now [''A'' \<mapsto> ex_row] [''A''] =
     Inr \<lparr> store_after =
             [''A'' \<mapsto> \<lparr> depth_mm = Some 120, width_mm = Some 50, height_mm = Some 20, weight_g = Some 300,
                       row_offer_id = ''A'', row_product_id = 11, row_name = ''Shelf'',
                       row_updated_at = ''2024-05-01'',
                       dim_hash = ''0bc257a7dfba82051284ec2f29193475f9affaafa748c0324a71f069780f773a'',
                       attr_hash = None, last_seen_at = ''2024-06-01 12:00:00'' \<rparr>],
           staged = [\<lparr> depth_mm = Some 120, width_mm = Some 50, height_mm = Some 20, weight_g = Some 300,
                       row_offer_id = ''A'', row_product_id = 11, row_name = ''Shelf'',
                       row_updated_at = ''2024-05-01'',
                       dim_hash = ''0bc257a7dfba82051284ec2f29193475f9affaafa748c0324a71f069780f773a'',
                       attr_hash = None \<rparr>],
           notified = [DimDiffMessage ''A'' ex_info_deeper
                         \<lparr> depth_mm = Some 100, width_mm = Some 50, height_mm = Some 20, weight_g = Some 300 \<rparr>
                         \<lparr> depth_mm = Some 120, width_mm = Some 50, height_mm = Some 20, weight_g = Some 300 \<rparr>] \<rparr>"
  by (simp add: batch_defs ex_defs ex_sel ex_dims fp_deeper)

text \<open>The groups that \<^verbatim>\<open>chunk\<close> cuts: consecutive, not empty, of at most \<open>n\<close> elements.\<close>
lemma ceil_div_mult:
  assumes "0 < (n::nat)" shows "(q * n + n - 1) div n = q"
proof (rule div_nat_eqI)
  show "n * q \<le> q * n + n - 1" using assms by (simp add: mult.commute)
  show "q * n + n - 1 < n * Suc q" using assms by (simp add: mult.commute)
qed

lemma ceil_div_step:
  assumes "0 < (n::nat)" and "m mod n \<noteq> 0"
  shows "(Suc m + n - 1) div n = (m + n - 1) div n"
proof -
  define q where "q = m div n"
  define r where "r = m mod n"
  have m: "m = n * q + r" by (simp add: q_def r_def)
  have r: "0 < r" "r < n" using assms by (simp_all add: r_def)
  have a: "(Suc m + n - 1) div n = Suc q"
  proof (rule div_nat_eqI)
    show "n * Suc q \<le> Suc m + n - 1" using r by (simp add: m)
    show "Suc m + n - 1 < n * Suc (Suc q)" using r by (simp add: m)
  qed
  have b: "(m + n - 1) div n = Suc q"
  proof (rule div_nat_eqI)
    show "n * Suc q \<le> m + n - 1" using r by (simp add: m)
    show "m + n - 1 < n * Suc (Suc q)" using r by (simp add: m)
  qed
  from a b show ?thesis by simp
qed

lemma chunk_foldl:
  assumes "0 < n"
  shows "foldl (\<lambda>acc i. if n \<noteq> 0 \<and> i mod n \<noteq> 0 then acc else acc @ [take n (drop i arr)]) acc0 [0..<m]
         = acc0 @ map (\<lambda>k. take n (drop (k * n) arr)) [0..<(m + n - 1) div n]"
proof (induction m)
  case 0
  from assms show ?case by simp
next
  case (Suc m)
  show ?case
  proof (cases "m mod n = 0")
    case True
    define q where "q = m div n"
    from True have q: "m = q * n"
      using div_mult_mod_eq [of m n] by (simp add: q_def)
    from assms have a: "(m + n - 1) div n = q" unfolding q by (rule ceil_div_mult)
    from assms have b: "(Suc m + n - 1) div n = Suc q" unfolding q by simp
    have c: "[0..<Suc q] = [0..<q] @ [q]" by simp
    show ?thesis
      unfolding upt_Suc_append [OF le0] foldl_append Suc b c a
      using True assms by (simp add: q)
  next
    case False
    from assms False have e: "(Suc m + n - 1) div n = (m + n - 1) div n" by (rule ceil_div_step)
    show ?thesis
      unfolding upt_Suc_append [OF le0] foldl_append Suc e
      using False assms by simp
  qed
qed

lemma chunk_eq:
  assumes "0 < n"
  shows "chunk arr n = map (\<lambda>k. take n (drop (k * n) arr)) [0..<(length arr + n - 1) div n]"
  unfolding chunk_def using chunk_foldl [OF assms, of arr "[]" "length arr"] by simp

lemma concat_take_drop:
  "concat (map (\<lambda>k. take n (drop (k * n) arr)) [0..<K]) = take (K * n) arr"
proof (induction K)
  case 0
  show ?case by simp
next
  case (Suc K)
  have "Suc K * n = K * n + n" by simp
  then have "take (Suc K * n) arr = take (K * n) arr @ take n (drop (K * n) arr)"
    by (simp only: take_add)
  with Suc show ?case by simp
qed

lemma ceil_div_covers:
  assumes "0 < (n::nat)" shows "l \<le> ((l + n - 1) div n) * n"
proof -
  have "(l + n - 1) div n * n + (l + n - 1) mod n = l + n - 1" by simp
  moreover have "(l + n - 1) mod n < n" using assms by simp
  ultimately show ?thesis by linarith
qed

lemma concat_chunk:
  assumes "0 < n" shows "concat (chunk arr n) = arr"
  using ceil_div_covers [OF assms, of "length arr"]
  by (simp only: chunk_eq [OF assms] concat_take_drop take_all)

lemma chunk_sizes:
  assumes "0 < n" and "bb \<in> set (chunk arr n)"
  shows "bb \<noteq> [] \<and> length bb \<le> n"
proof -
  from assms obtain k where k: "k < (length arr + n - 1) div n" and bb: "bb = take n (drop (k * n) arr)"
    by (auto simp: chunk_eq)
  from k have "Suc k \<le> (length arr + n - 1) div n" by simp
  then have "Suc k * n \<le> ((length arr + n - 1) div n) * n" by (rule mult_le_mono1)
  also have "\<dots> \<le> length arr + n - 1" by simp
  finally have "k * n < length arr" using assms(1) by simp
  then show ?thesis using assms(1) by (simp add: bb)
qed

text \<open>A loop that skips the failing groups collects the items of the other groups, in order.\<close>
lemma foldl_skip_failed:
  "foldl (\<lambda>acc bb. case f bb of Inr items \<Rightarrow> acc @ items | Inl e \<Rightarrow> acc) acc0 groups
   = acc0 @ concat (map (\<lambda>bb. case f bb of Inr items \<Rightarrow> items | Inl e \<Rightarrow> []) groups)"
  by (induction groups arbitrary: acc0) (simp_all split: sum.splits)

text \<open>
  C6, as the code has it. In \<^verbatim>\<open>index.js\<close> the attribute items are those of the groups whose
  request succeeds, in order, a failing group adding nothing; the groups are consecutive
  parts of the batch, none empty and none longer than 100 ids; and \<^verbatim>\<open>processBatch\<close>
  returns normally whatever requests fail.
\<close>
theorem index_attribute_groups:
  "fetchAttrItems_index net offerIds =
     concat (map (\<lambda>bb. case fetchAttributesV4 net bb of Inr items \<Rightarrow> items | Inl e \<Rightarrow> []) (chunk offerIds 100))
   \<and> concat (chunk offerIds 100) = offerIds
   \<and> (\<forall>bb \<in> set (chunk offerIds 100). bb \<noteq> [] \<and> length bb \<le> 100)
   \<and> (\<exists>r. processBatch_index cfg net now db offerIds = Inr r)"
proof -
  have a: "fetchAttrItems_index net offerIds =
     concat (map (\<lambda>bb. case fetchAttributesV4 net bb of Inr items \<Rightarrow> items | Inl e \<Rightarrow> []) (chunk offerIds 100))"
    by (simp add: fetchAttrItems_index_def foldl_skip_failed)
  have b: "concat (chunk offerIds 100) = offerIds" by (simp add: concat_chunk)
  have c: "\<forall>bb \<in> set (chunk offerIds 100). bb \<noteq> [] \<and> length bb \<le> 100"
    using chunk_sizes [of 100 _ offerIds] by simp
  have d: "\<exists>r. processBatch_index cfg net now db offerIds = Inr r"
    by (simp add: processBatch_index_def Let_def split: flow.splits)
  from a b c d show ?thesis by blast
qed

lemma ex_chunk: "chunk ex_ids 100 = [map show_nat [1..<101], [''101'']]"
  by code_simp

lemma ex_groups:
  "fetchAttributesV4 ex_net_groups (map show_nat [1..<101]) = Inl (Error ''timeout'')"
  "fetchAttributesV4 ex_net_groups [''101''] = Inr [ex_attrs]"
  by code_simp+

text \<open>
  A batch of 101 ids is cut into a group of 100 and a group of 1. The request for the
  first group fails, and the items of the second group are kept.
\<close>
theorem index_attribute_groups_witness:
  "map length (chunk ex_ids 100) = [100, 1]
   \<and> fetchAttributesV4 ex_net_groups (map show_nat [1..<101]) = Inl (Error ''timeout'')
   \<and> fetchAttrItems_index ex_net_groups ex_ids = [ex_attrs]"
proof -
  have l: "map length (chunk ex_ids 100) = [100, 1]"
    by (simp add: ex_chunk)
  from index_attribute_groups [of ex_net_groups ex_ids ex_cfg_both ex_now Map.empty]
  have "fetchAttrItems_index ex_net_groups ex_ids =
     concat (map (\<lambda>bb. case fetchAttributesV4 ex_net_groups bb of Inr items \<Rightarrow> items | Inl e \<Rightarrow> []) (chunk ex_ids 100))"
    by blast
  then have "fetchAttrItems_index ex_net_groups ex_ids = [ex_attrs]"
    by (simp add: ex_chunk ex_groups del: One_nat_def)
  with l ex_groups(1) show ?thesis by blast
qed

text \<open>
  In \<^verbatim>\<open>main.js\<close> the attributes are asked for by one request for the whole batch, and its
  failure leaves \<^verbatim>\<open>processBatch\<close>.
\<close>
theorem main_attribute_failure_counterexample:
  "processBatch_main ex_cfg_both ex_net_attrs_down ex_now Map.empty [''A''] = Inl (Error ''timeout'')"
  by (simp add: processBatch_main_def attribute_mode_def fetchAttributesV4_def ex_cfg_both_def
        ex_net_attrs_down_def Let_def)

subsection \<open>The scheduler\<close>





end
